theory Spec2Isabelle
  imports Main
begin

section \<open>Python string operations used by the two modules\<close>

text \<open>
  Both modules parse the text printed by the \<^verbatim>\<open>git\<close> tool with \<^verbatim>\<open>str.strip\<close>,
  \<^verbatim>\<open>str.split\<close>, \<^verbatim>\<open>str.startswith\<close>, \<^verbatim>\<open>str.endswith\<close>, \<^verbatim>\<open>str.replace\<close>,
  \<^verbatim>\<open>str.lower\<close> and the substring test \<^verbatim>\<open>in\<close>. A Python \<^verbatim>\<open>str\<close> is modelled as a
  \<^typ>\<open>string\<close> whose characters are read as the code points 0 to 255; text with
  code points beyond that range is outside the model.
\<close>

definition py_isspace :: "char \<Rightarrow> bool" where
  "py_isspace c = (c \<in> set [CHR 0x09, CHR 0x0A, CHR 0x0B, CHR 0x0C, CHR 0x0D,
                             CHR 0x1C, CHR 0x1D, CHR 0x1E, CHR 0x1F, CHR 0x20,
                             CHR 0x85, CHR 0xA0])"

definition py_strip :: "string \<Rightarrow> string" where
  "py_strip s = rev (dropWhile py_isspace (rev (dropWhile py_isspace s)))"

fun py_startswith :: "string \<Rightarrow> string \<Rightarrow> bool" where
  "py_startswith s [] = True"
| "py_startswith [] (p # ps) = False"
| "py_startswith (c # cs) (p # ps) = (c = p \<and> py_startswith cs ps)"

definition py_endswith :: "string \<Rightarrow> string \<Rightarrow> bool" where
  "py_endswith s p = py_startswith (rev s) (rev p)"

text \<open>\<^verbatim>\<open>sub in s\<close>: some suffix of \<open>s\<close> starts with \<open>sub\<close>.\<close>

fun py_in :: "string \<Rightarrow> string \<Rightarrow> bool" where
  "py_in sub [] = (sub = [])"
| "py_in sub (c # cs) = (py_startswith (c # cs) sub \<or> py_in sub cs)"

text \<open>
  \<^verbatim>\<open>s.split(sep)\<close> for a non-empty separator: the text is scanned from the left, each
  occurrence of the separator closes the current piece. (Python raises on an empty
  separator; both modules only split on fixed non-empty separators, and the scan below
  treats an empty one as never matching.)
\<close>

function py_split_from :: "string \<Rightarrow> string \<Rightarrow> string \<Rightarrow> string list" where
  "py_split_from sep cur [] = [rev cur]"
| "py_split_from sep cur (c # cs) =
     (if sep \<noteq> [] \<and> py_startswith (c # cs) sep
      then rev cur # py_split_from sep [] (drop (length sep) (c # cs))
      else py_split_from sep (c # cur) cs)"
  by pat_completeness auto
termination
  by (relation "measure (\<lambda>(sep, cur, s). length s)") (auto simp: neq_Nil_conv)

definition py_split :: "string \<Rightarrow> string \<Rightarrow> string list" where
  "py_split s sep = py_split_from sep [] s"

text \<open>\<^verbatim>\<open>s.replace(old, new)\<close>: every non-overlapping occurrence, scanning from the left.\<close>

function py_replace :: "string \<Rightarrow> string \<Rightarrow> string \<Rightarrow> string" where
  "py_replace [] old new = (if old = [] then new else [])"
| "py_replace (c # cs) old new =
     (if old = [] then new @ c # py_replace cs old new
      else if py_startswith (c # cs) old
      then new @ py_replace (drop (length old) (c # cs)) old new
      else c # py_replace cs old new)"
  by pat_completeness auto
termination
  by (relation "measure (\<lambda>(s, old, new). length s)") (auto simp: neq_Nil_conv)

definition py_lower_char :: "char \<Rightarrow> char" where
  "py_lower_char c =
     (let n = (of_char c :: nat)
      in if (65 \<le> n \<and> n \<le> 90) \<or> (192 \<le> n \<and> n \<le> 222 \<and> n \<noteq> 215)
         then char_of (n + 32) else c)"

definition py_lower :: "string \<Rightarrow> string" where
  "py_lower s = map py_lower_char s"

section \<open>The subprocess boundary\<close>

text \<open>
  Every interaction with the repository goes through \<^verbatim>\<open>subprocess.run\<close>. Its behaviour
  is a parameter of the model: a function from the argument vector, the working directory
  and the state of the outside world (repository, remote, file system) to what the call
  did and the world afterwards. A call either returns a completed process (return code,
  standard output, standard error) or raises; the exception is carried as a value with
  its message \<^verbatim>\<open>str(e)\<close>.
\<close>

datatype proc_outcome =
    Exited int string string
  | TimeoutExpired string
  | RunError string

type_synonym 'w subprocess = "string list \<Rightarrow> string option \<Rightarrow> 'w \<Rightarrow> proc_outcome \<times> 'w"




text \<open>
  The session threaded through the code is the world together with the list of the
  commands run so far, each with the pair the command runner returned for it. The list
  is only observed by the theorems; the code never reads it. The diagnostic lines the
  modules print or log are not modelled.
\<close>

type_synonym event = "string list \<times> bool \<times> string"
type_synonym 'w session = "'w \<times> event list"

definition commands_of :: "event list \<Rightarrow> string list list" where
  "commands_of tr = map fst tr"


section \<open>Module \<^verbatim>\<open>git_utils.py\<close> (free functions)\<close>

fun utils_run_git_command ::
  "'w subprocess \<Rightarrow> string list \<Rightarrow> string option \<Rightarrow> 'w session \<Rightarrow> (bool \<times> string) \<times> 'w session" where
  "utils_run_git_command sp command cwd (w, tr) =
     (case sp command cwd w of
        (outcome, w') \<Rightarrow>
          (let r = (case outcome of
                      Exited returncode out err \<Rightarrow> (returncode = 0, py_strip out @ py_strip err)
                    | TimeoutExpired e \<Rightarrow> (False, e)
                    | RunError e \<Rightarrow> (False, e))
           in (r, (w', tr @ [(command, r)]))))"

text \<open>The two \<^verbatim>\<open>for line in output.split('\n')\<close> loops of \<^verbatim>\<open>get_available_branches\<close>.\<close>

fun utils_local_loop :: "string list \<Rightarrow> string list \<Rightarrow> string list" where
  "utils_local_loop [] branches = branches"
| "utils_local_loop (l # ls) branches =
     (let line = py_strip l
      in if line \<noteq> [] \<and> \<not> py_startswith line ''*''
         then utils_local_loop ls (branches @ [line])
         else if py_startswith line ''* ''
         then (let branch_name = py_strip (drop 2 line)
               in if \<not> py_startswith branch_name ''(''
                  then utils_local_loop ls (branches @ [branch_name])
                  else utils_local_loop ls branches)
         else utils_local_loop ls branches)"

fun utils_remote_loop :: "string list \<Rightarrow> string list \<Rightarrow> string list" where
  "utils_remote_loop [] branches = branches"
| "utils_remote_loop (l # ls) branches =
     (let line = py_strip l
      in if line \<noteq> [] \<and> \<not> py_startswith line ''origin/HEAD''
         then (if py_startswith line ''origin/''
               then (let branch_name = drop 7 line
                     in if branch_name \<notin> set branches
                        then utils_remote_loop ls (branches @ [branch_name])
                        else utils_remote_loop ls branches)
               else utils_remote_loop ls branches)
         else utils_remote_loop ls branches)"

definition utils_get_available_branches ::
  "(string list \<Rightarrow> string list) \<Rightarrow> 'w subprocess \<Rightarrow> 'w session \<Rightarrow> string list \<times> 'w session" where
  "utils_get_available_branches list_of_set sp s =
     (case utils_run_git_command sp [''git'', ''branch''] None s of
        ((success, output), s1) \<Rightarrow>
          (let branches = (if success then utils_local_loop (py_split output [CHR 0x0A]) [] else [])
           in case utils_run_git_command sp [''git'', ''branch'', ''-r''] None s1 of
                ((success', output'), s2) \<Rightarrow>
                  (let branches' = (if success'
                                    then utils_remote_loop (py_split output' [CHR 0x0A]) branches
                                    else branches)
                   in (list_of_set branches', s2))))"

fun utils_detached_loop :: "string list \<Rightarrow> bool" where
  "utils_detached_loop [] = False"
| "utils_detached_loop (l # ls) =
     (if py_startswith (py_strip l) ''* (HEAD detached'' then True else utils_detached_loop ls)"

definition utils_is_detached_head :: "'w subprocess \<Rightarrow> 'w session \<Rightarrow> bool \<times> 'w session" where
  "utils_is_detached_head sp s =
     (case utils_run_git_command sp [''git'', ''branch''] None s of
        ((success, output), s1) \<Rightarrow>
          (if success then utils_detached_loop (py_split output [CHR 0x0A]) else False, s1))"

definition default_candidates :: "string list" where
  "default_candidates = [''main'', ''master'', ''develop'', ''development'']"

definition utils_get_default_branch ::
  "(string list \<Rightarrow> string list) \<Rightarrow> 'w subprocess \<Rightarrow> 'w session \<Rightarrow> string option \<times> 'w session" where
  "utils_get_default_branch list_of_set sp s =
     (case utils_run_git_command sp [''git'', ''symbolic-ref'', ''refs/remotes/origin/HEAD''] None s of
        ((success, output), s1) \<Rightarrow>
          if success \<and> py_in ''refs/remotes/origin/'' output
          then (Some (py_strip (last (py_split output ''refs/remotes/origin/''))), s1)
          else (case utils_get_available_branches list_of_set sp s1 of
                  (available_branches, s2) \<Rightarrow>
                    (case find (\<lambda>candidate. candidate \<in> set available_branches) default_candidates of
                       Some candidate \<Rightarrow> (Some candidate, s2)
                     | None \<Rightarrow>
                         (case available_branches of
                            first # rest \<Rightarrow> (Some first, s2)
                          | [] \<Rightarrow> (None, s2)))))"

definition utils_create_branch_from_remote ::
  "'w subprocess \<Rightarrow> string \<Rightarrow> 'w session \<Rightarrow> bool \<times> 'w session" where
  "utils_create_branch_from_remote sp branch_name s =
     (case utils_run_git_command sp
             [''git'', ''show-ref'', ''--verify'', ''--quiet'', ''refs/remotes/origin/'' @ branch_name]
             None s of
        ((success, _), s1) \<Rightarrow>
          if success
          then (case utils_run_git_command sp
                       [''git'', ''checkout'', ''-b'', branch_name, ''origin/'' @ branch_name] None s1 of
                  ((success', output), s2) \<Rightarrow> (success', s2))
          else (case utils_run_git_command sp [''git'', ''checkout'', ''-b'', branch_name] None s1 of
                  ((success', output), s2) \<Rightarrow> (success', s2)))"

text \<open>
  The loop \<^verbatim>\<open>for alt_branch in alternatives\<close> of \<^verbatim>\<open>switch_to_branch\<close>.
  \<open>utils_try_alternative\<close> is its body (lines 190 to 197): whether this alternative
  made the function return \<^verbatim>\<open>True\<close>. The loop yields \<open>False\<close> where it runs out.
\<close>

definition utils_try_alternative ::
  "'w subprocess \<Rightarrow> string list \<Rightarrow> string \<Rightarrow> 'w session \<Rightarrow> bool \<times> 'w session" where
  "utils_try_alternative sp available_branches alt_branch s =
     (if alt_branch \<in> set available_branches
      then (case utils_run_git_command sp [''git'', ''checkout'', alt_branch] None s of
              ((success, _), s1) \<Rightarrow> (success, s1))
      else utils_create_branch_from_remote sp alt_branch s)"

fun utils_alternatives_loop ::
  "'w subprocess \<Rightarrow> string list \<Rightarrow> string list \<Rightarrow> 'w session \<Rightarrow> bool \<times> 'w session" where
  "utils_alternatives_loop sp available_branches [] s = (False, s)"
| "utils_alternatives_loop sp available_branches (alt_branch # alts) s =
     (case utils_try_alternative sp available_branches alt_branch s of
        (returned, s1) \<Rightarrow>
          if returned then (True, s1)
          else utils_alternatives_loop sp available_branches alts s1)"

definition alternatives_for :: "string \<Rightarrow> string list" where
  "alternatives_for target_branch =
     (if target_branch \<notin> set [''main'', ''master''] then [''main'', ''master'']
      else [''master'', ''main''])"

text \<open>The part of \<^verbatim>\<open>switch_to_branch\<close> after the target is known (lines 168 to 200).\<close>

definition utils_switch_to_known ::
  "(string list \<Rightarrow> string list) \<Rightarrow> 'w subprocess \<Rightarrow> string \<Rightarrow> 'w session \<Rightarrow> bool \<times> 'w session" where
  "utils_switch_to_known list_of_set sp target_branch s =
     (case utils_run_git_command sp [''git'', ''checkout'', target_branch] None s of
        ((success, output), s1) \<Rightarrow>
          if success then (True, s1)
          else (case utils_get_available_branches list_of_set sp s1 of
                  (available_branches, s2) \<Rightarrow>
                    if target_branch \<notin> set available_branches
                    then (case utils_create_branch_from_remote sp target_branch s2 of
                            (created, s3) \<Rightarrow>
                              if created then (True, s3)
                              else utils_alternatives_loop sp available_branches
                                     (alternatives_for target_branch) s3)
                    else (False, s2)))"

definition utils_switch_to_branch ::
  "(string list \<Rightarrow> string list) \<Rightarrow> 'w subprocess \<Rightarrow> string option \<Rightarrow> 'w session \<Rightarrow> bool \<times> 'w session" where
  "utils_switch_to_branch list_of_set sp target_branch s =
     (case target_branch of
        Some t \<Rightarrow> utils_switch_to_known list_of_set sp t s
      | None \<Rightarrow>
          (case utils_get_default_branch list_of_set sp s of
             (None, s1) \<Rightarrow> (False, s1)
           | (Some t, s1) \<Rightarrow> utils_switch_to_known list_of_set sp t s1))"

text \<open>
  The push itself with its retry (lines 251 to 278 of \<^verbatim>\<open>execute_git_push\<close>).
  \<open>upstream_missing\<close> is the test of line 268 on the text of the failed push.
\<close>

definition upstream_missing :: "string \<Rightarrow> bool" where
  "upstream_missing output =
     (py_in ''no upstream branch'' (py_lower output) \<or> py_in ''set-upstream'' (py_lower output))"

definition utils_push_branch ::
  "'w subprocess \<Rightarrow> bool \<Rightarrow> string \<Rightarrow> 'w session \<Rightarrow> bool \<times> 'w session" where
  "utils_push_branch sp force current_branch s =
     (let push_cmd = [''git'', ''push''] @ (if force then [''--force''] else [])
                       @ [''origin'', current_branch]
      in case utils_run_git_command sp push_cmd None s of
           ((success, output), s1) \<Rightarrow>
             if success then (True, s1)
             else if upstream_missing output
             then (case utils_run_git_command sp
                          [''git'', ''push'', ''--set-upstream'', ''origin'', current_branch] None s1 of
                     ((success', upstream_output), s2) \<Rightarrow>
                       if success' then (True, s2) else (False, s2))
             else (False, s1))"

text \<open>Lines 243 to 278: read the branch again, then push.\<close>

definition utils_push_current ::
  "'w subprocess \<Rightarrow> bool \<Rightarrow> 'w session \<Rightarrow> bool \<times> 'w session" where
  "utils_push_current sp force s =
     (case utils_run_git_command sp [''git'', ''branch'', ''--show-current''] None s of
        ((success, current_branch), s1) \<Rightarrow>
          if \<not> success \<or> current_branch = [] then (False, s1)
          else utils_push_branch sp force current_branch s1)"

definition utils_execute_git_push ::
  "(string list \<Rightarrow> string list) \<Rightarrow> 'w subprocess \<Rightarrow> string option \<Rightarrow> bool \<Rightarrow> 'w session
     \<Rightarrow> bool \<times> 'w session" where
  "utils_execute_git_push list_of_set sp target_branch force s =
     (case utils_run_git_command sp [''git'', ''status'', ''--porcelain''] None s of
        ((success, status_output), s1) \<Rightarrow>
          if \<not> success then (False, s1)
          else (case utils_is_detached_head sp s1 of
                  (detached, s2) \<Rightarrow>
                    if detached
                    then (case utils_switch_to_branch list_of_set sp target_branch s2 of
                            (switched, s3) \<Rightarrow>
                              if \<not> switched then (False, s3)
                              else utils_push_current sp force s3)
                    else (case utils_run_git_command sp [''git'', ''branch'', ''--show-current''] None s2 of
                            ((success', current_branch), s3) \<Rightarrow>
                              if success' \<and> current_branch \<noteq> []
                              then utils_push_current sp force s3
                              else if target_branch \<noteq> None \<and> target_branch \<noteq> Some []
                              then (case utils_switch_to_branch list_of_set sp target_branch s3 of
                                      (switched, s4) \<Rightarrow>
                                        if \<not> switched then (False, s4)
                                        else utils_push_current sp force s4)
                              else utils_push_current sp force s3)))"

section \<open>Module \<^verbatim>\<open>git_operations.py\<close> (class \<^verbatim>\<open>GitOperations\<close>)\<close>

record GitOperations =
  repo_path :: string

text \<open>
  With \<^verbatim>\<open>capture_output=False\<close> the completed process has no captured text, and
  \<^verbatim>\<open>.strip()\<close> on it raises inside the \<^verbatim>\<open>try\<close>; the general handler turns that
  into a failure as well.
\<close>

definition no_strip_message :: string where
  "no_strip_message =
     [CHR 0x27] @ ''NoneType'' @ [CHR 0x27] @ '' object has no attribute ''
       @ [CHR 0x27] @ ''strip'' @ [CHR 0x27]"

fun ops_run_git_command ::
  "'w subprocess \<Rightarrow> GitOperations \<Rightarrow> string list \<Rightarrow> bool \<Rightarrow> 'w session
     \<Rightarrow> (bool \<times> string) \<times> 'w session" where
  "ops_run_git_command sp self command capture_output (w, tr) =
     (let full_command = [''git'', ''--no-pager''] @ command
      in case sp full_command (Some (repo_path self)) w of
           (outcome, w') \<Rightarrow>
             (let r = (case outcome of
                         Exited returncode out err \<Rightarrow>
                           if \<not> capture_output
                           then (False, ''Git command failed: '' @ no_strip_message)
                           else if returncode = 0 then (True, py_strip out)
                           else (False, py_strip err)
                       | TimeoutExpired e \<Rightarrow> (False, ''Git command timed out'')
                       | RunError e \<Rightarrow> (False, ''Git command failed: '' @ e))
              in (r, (w', tr @ [(full_command, r)]))))"

definition ops_get_current_branch ::
  "'w subprocess \<Rightarrow> GitOperations \<Rightarrow> 'w session \<Rightarrow> string option \<times> 'w session" where
  "ops_get_current_branch sp self s =
     (case ops_run_git_command sp self [''branch'', ''--show-current''] True s of
        ((success, output), s1) \<Rightarrow>
          if success \<and> output \<noteq> [] then (Some output, s1) else (None, s1))"

definition ops_is_detached_head ::
  "'w subprocess \<Rightarrow> GitOperations \<Rightarrow> 'w session \<Rightarrow> bool \<times> 'w session" where
  "ops_is_detached_head sp self s =
     (case ops_get_current_branch sp self s of
        (current, s1) \<Rightarrow> (current = None, s1))"

definition ops_get_available_branches ::
  "'w subprocess \<Rightarrow> GitOperations \<Rightarrow> 'w session \<Rightarrow> (string list \<times> string list) \<times> 'w session" where
  "ops_get_available_branches sp self s =
     (case ops_run_git_command sp self [''branch'', ''--format=%(refname:short)''] True s of
        ((local_success, local_output), s1) \<Rightarrow>
          (let local_branches =
                 (if local_success
                  then map py_strip
                         (filter (\<lambda>branch. py_strip branch \<noteq> []) (py_split local_output [CHR 0x0A]))
                  else [])
           in case ops_run_git_command sp self
                     [''branch'', ''-r'', ''--format=%(refname:short)''] True s1 of
                ((remote_success, remote_output), s2) \<Rightarrow>
                  (let remote_branches =
                         (if remote_success
                          then map (\<lambda>branch. py_replace (py_strip branch) ''origin/'' [])
                                 (filter (\<lambda>branch. py_strip branch \<noteq> []
                                                    \<and> \<not> py_endswith (py_strip branch) ''/HEAD'')
                                    (py_split remote_output [CHR 0x0A]))
                          else [])
                   in ((local_branches, remote_branches), s2))))"

definition ops_fetch_remote_branches ::
  "'w subprocess \<Rightarrow> GitOperations \<Rightarrow> 'w session \<Rightarrow> bool \<times> 'w session" where
  "ops_fetch_remote_branches sp self s =
     (case ops_run_git_command sp self [''fetch'', ''origin''] True s of
        ((success, output), s1) \<Rightarrow> (success, s1))"

definition ops_create_branch_from_remote ::
  "'w subprocess \<Rightarrow> GitOperations \<Rightarrow> string \<Rightarrow> 'w session \<Rightarrow> bool \<times> 'w session" where
  "ops_create_branch_from_remote sp self branch_name s =
     (case ops_run_git_command sp self
             [''fetch'', ''origin'', branch_name @ '':'' @ branch_name] True s of
        ((success, output), s1) \<Rightarrow> (success, s1))"

text \<open>\<^verbatim>\<open>if base_branch:\<close> holds for a base that is neither \<^verbatim>\<open>None\<close> nor empty.\<close>

definition ops_create_new_branch ::
  "'w subprocess \<Rightarrow> GitOperations \<Rightarrow> string \<Rightarrow> string option \<Rightarrow> 'w session \<Rightarrow> bool \<times> 'w session" where
  "ops_create_new_branch sp self branch_name base_branch s =
     (let command = [''checkout'', ''-b'', branch_name]
                      @ (case base_branch of
                           Some b \<Rightarrow> (if b \<noteq> [] then [b] else [])
                         | None \<Rightarrow> [])
      in case ops_run_git_command sp self command True s of
           ((success, output), s1) \<Rightarrow> (success, s1))"

definition ops_switch_to_branch ::
  "'w subprocess \<Rightarrow> GitOperations \<Rightarrow> string \<Rightarrow> 'w session \<Rightarrow> bool \<times> 'w session" where
  "ops_switch_to_branch sp self branch_name s =
     (case ops_run_git_command sp self [''checkout'', branch_name] True s of
        ((success, output), s1) \<Rightarrow> (success, s1))"

definition priority_branches :: "string list" where
  "priority_branches = [''main'', ''master'', ''develop'']"

definition ops_find_best_branch ::
  "(string list \<Rightarrow> string list) \<Rightarrow> 'w subprocess \<Rightarrow> GitOperations \<Rightarrow> 'w session
     \<Rightarrow> string option \<times> 'w session" where
  "ops_find_best_branch list_of_set sp self s =
     (case ops_fetch_remote_branches sp self s of
        (_, s1) \<Rightarrow>
          (case ops_get_available_branches sp self s1 of
             ((local_branches, remote_branches), s2) \<Rightarrow>
               (let all_available_branches = list_of_set (local_branches @ remote_branches)
                in case find (\<lambda>preferred_branch. preferred_branch \<in> set all_available_branches)
                          priority_branches of
                     Some preferred_branch \<Rightarrow> (Some preferred_branch, s2)
                   | None \<Rightarrow>
                       (case all_available_branches of
                          selected_branch # rest \<Rightarrow> (Some selected_branch, s2)
                        | [] \<Rightarrow> (None, s2)))))"

definition ops_ensure_branch_available ::
  "'w subprocess \<Rightarrow> GitOperations \<Rightarrow> string \<Rightarrow> 'w session \<Rightarrow> bool \<times> 'w session" where
  "ops_ensure_branch_available sp self branch_name s =
     (case ops_get_available_branches sp self s of
        ((local_branches, remote_branches), s1) \<Rightarrow>
          if branch_name \<in> set local_branches then (True, s1)
          else if branch_name \<in> set remote_branches
          then ops_create_branch_from_remote sp self branch_name s1
          else ops_create_new_branch sp self branch_name None s1)"

text \<open>
  \<^verbatim>\<open>execute_git_push\<close> is one function in the source; it is cut here at its own
  comments. Lines 271 to 297 settle the branch: the result is the branch to push, or
  \<open>None\<close> where the source returns \<^verbatim>\<open>False\<close>. The test \<^verbatim>\<open>if not target_branch\<close>
  holds for \<^verbatim>\<open>None\<close> and for the empty name.
\<close>

definition ops_push_resolve ::
  "(string list \<Rightarrow> string list) \<Rightarrow> 'w subprocess \<Rightarrow> GitOperations \<Rightarrow> 'w session
     \<Rightarrow> string option \<times> 'w session" where
  "ops_push_resolve list_of_set sp self s =
     (case ops_get_current_branch sp self s of
        (Some current_branch, s1) \<Rightarrow> (Some current_branch, s1)
      | (None, s1) \<Rightarrow>
          (case ops_find_best_branch list_of_set sp self s1 of
             (target_branch, s2) \<Rightarrow>
               if target_branch = None \<or> target_branch = Some []
               then (case ops_create_new_branch sp self ''main'' None s2 of
                       (created, s3) \<Rightarrow> if \<not> created then (None, s3) else (Some ''main'', s3))
               else (case ops_ensure_branch_available sp self (the target_branch) s2 of
                       (available, s3) \<Rightarrow>
                         if \<not> available then (None, s3)
                         else (case ops_switch_to_branch sp self (the target_branch) s3 of
                                 (switched, s4) \<Rightarrow>
                                   if \<not> switched then (None, s4) else (target_branch, s4)))))"

text \<open>Lines 299 to 310: staging. \<^verbatim>\<open>if files:\<close> holds for a non-empty list.\<close>

fun ops_stage_loop ::
  "'w subprocess \<Rightarrow> GitOperations \<Rightarrow> string list \<Rightarrow> 'w session \<Rightarrow> bool \<times> 'w session" where
  "ops_stage_loop sp self [] s = (True, s)"
| "ops_stage_loop sp self (file # files) s =
     (case ops_run_git_command sp self [''add'', file] True s of
        ((success, output), s1) \<Rightarrow>
          if \<not> success then (False, s1) else ops_stage_loop sp self files s1)"

definition ops_push_stage ::
  "'w subprocess \<Rightarrow> GitOperations \<Rightarrow> string list option \<Rightarrow> 'w session \<Rightarrow> bool \<times> 'w session" where
  "ops_push_stage sp self files s =
     (case files of
        Some (file # rest) \<Rightarrow> ops_stage_loop sp self (file # rest) s
      | _ \<Rightarrow>
          (case ops_run_git_command sp self [''add'', ''.''] True s of
             ((success, output), s1) \<Rightarrow> (success, s1)))"

text \<open>
  Lines 312 to 340: the check for staged changes, the commit and the push. The generated
  message of line 319 depends on the clock; its text is the parameter
  \<open>generated_message\<close>. \<^verbatim>\<open>message or ...\<close> takes the generated text for \<^verbatim>\<open>None\<close>
  and for the empty message.
\<close>

definition ops_push_commit ::
  "'w subprocess \<Rightarrow> GitOperations \<Rightarrow> string \<Rightarrow> string option \<Rightarrow> string \<Rightarrow> 'w session
     \<Rightarrow> bool \<times> 'w session" where
  "ops_push_commit sp self generated_message message current_branch s =
     (case ops_run_git_command sp self [''diff'', ''--cached'', ''--quiet''] True s of
        ((success, output), s1) \<Rightarrow>
          if success then (True, s1)
          else (let commit_message =
                      (case message of
                         Some m \<Rightarrow> (if m \<noteq> [] then m else generated_message)
                       | None \<Rightarrow> generated_message)
                in case ops_run_git_command sp self [''commit'', ''-m'', commit_message] True s1 of
                     ((success1, output1), s2) \<Rightarrow>
                       if \<not> success1 then (False, s2)
                       else (case ops_run_git_command sp self
                                    [''push'', ''origin'', current_branch] True s2 of
                               ((success2, output2), s3) \<Rightarrow>
                                 if \<not> success2
                                 then (case ops_run_git_command sp self
                                              [''push'', ''-u'', ''origin'', current_branch] True s3 of
                                         ((success3, output3), s4) \<Rightarrow> (success3, s4))
                                 else (True, s3))))"

definition ops_execute_git_push ::
  "(string list \<Rightarrow> string list) \<Rightarrow> 'w subprocess \<Rightarrow> GitOperations \<Rightarrow> string
     \<Rightarrow> string option \<Rightarrow> string list option \<Rightarrow> 'w session \<Rightarrow> bool \<times> 'w session" where
  "ops_execute_git_push list_of_set sp self generated_message message files s =
     (case ops_push_resolve list_of_set sp self s of
        (None, s1) \<Rightarrow> (False, s1)
      | (Some current_branch, s1) \<Rightarrow>
          (case ops_push_stage sp self files s1 of
             (staged, s2) \<Rightarrow>
               if \<not> staged then (False, s2)
               else ops_push_commit sp self generated_message message current_branch s2))"

section \<open>Observing the commands of a run\<close>

text \<open>
  \<open>issued s s'\<close> are the argument vectors run between the sessions \<open>s\<close> and \<open>s'\<close>;
  \<open>runs_only P s s'\<close> says that \<open>s'\<close> continues \<open>s\<close> and that every command run in
  between satisfies \<open>P\<close>. \<open>ops_subcommand\<close> is the \<^verbatim>\<open>git\<close> subcommand of an argument
  vector built by the class, which always starts \<^verbatim>\<open>git --no-pager\<close>.
\<close>

definition issued :: "'w session \<Rightarrow> 'w session \<Rightarrow> string list list" where
  "issued s s' = drop (length (snd s)) (commands_of (snd s'))"

definition runs_only :: "(string list \<Rightarrow> bool) \<Rightarrow> 'w session \<Rightarrow> 'w session \<Rightarrow> bool" where
  "runs_only P s s' =
     (take (length (snd s)) (commands_of (snd s')) = commands_of (snd s)
      \<and> list_all P (issued s s'))"

definition ops_subcommand :: "string list \<Rightarrow> string" where
  "ops_subcommand command = (case command of g # p # sub # rest \<Rightarrow> sub | _ \<Rightarrow> [])"

definition is_commit_or_push :: "string list \<Rightarrow> bool" where
  "is_commit_or_push command =
     (ops_subcommand command = ''commit'' \<or> ops_subcommand command = ''push'')"

section \<open>The specification's rules, for comparison with the code\<close>

text \<open>
  The resolution order of \<open>defaultBranch()\<close> as the specification words it: the remote's
  symbolic default when it is resolvable; else the first of the candidate names that is
  present among the available branches; else the first available branch; else nothing.
  \<open>resolution_order\<close> takes the list of candidate names as a parameter.
\<close>

definition resolution_order ::
  "string list \<Rightarrow> string option \<Rightarrow> string list \<Rightarrow> string option" where
  "resolution_order candidates remote_default available =
     (case remote_default of
        Some b \<Rightarrow> Some b
      | None \<Rightarrow>
          (case find (\<lambda>c. c \<in> set available) candidates of
             Some c \<Rightarrow> Some c
           | None \<Rightarrow> (case available of b # rest \<Rightarrow> Some b | [] \<Rightarrow> None)))"

definition defaultBranch_spec :: "string option \<Rightarrow> string list \<Rightarrow> string option" where
  "defaultBranch_spec remote_default available =
     resolution_order [''main'', ''master'', ''develop'', ''development''] remote_default available"

text \<open>
  What the answer to \<^verbatim>\<open>git symbolic-ref refs/remotes/origin/HEAD\<close> says about the
  remote's default branch: it is resolvable when the query succeeded and printed a ref
  under \<^verbatim>\<open>refs/remotes/origin/\<close>, and the name is what follows the last such prefix.
\<close>

definition remote_default_of :: "bool \<times> string \<Rightarrow> string option" where
  "remote_default_of r =
     (if fst r \<and> py_in ''refs/remotes/origin/'' (snd r)
      then Some (py_strip (last (py_split (snd r) ''refs/remotes/origin/'')))
      else None)"

text \<open>
  What one line of a listing contributes to the result of
  \<^verbatim>\<open>git_utils.get_available_branches\<close>: the name it yields, if any.
\<close>

definition utils_local_name :: "string \<Rightarrow> string option" where
  "utils_local_name l =
     (let line = py_strip l
      in if line \<noteq> [] \<and> \<not> py_startswith line ''*'' then Some line
         else if py_startswith line ''* '' \<and> \<not> py_startswith (py_strip (drop 2 line)) ''(''
         then Some (py_strip (drop 2 line))
         else None)"




definition has_detached_marker :: "string \<Rightarrow> bool" where
  "has_detached_marker output =
     (\<exists>l \<in> set (py_split output [CHR 0x0A]). py_startswith (py_strip l) ''* (HEAD detached'')"

section \<open>Stand-ins for the tool, used at concrete inputs\<close>

text \<open>
  A scripted tool answers each argument vector from a fixed table and leaves the world
  (here the unit value) alone; a vector missing from the table exits with status 1.
\<close>

definition scripted :: "(string list \<times> proc_outcome) list \<Rightarrow> unit subprocess" where
  "scripted table command cwd w =
     (case map_of table command of
        Some outcome \<Rightarrow> (outcome, w)
      | None \<Rightarrow> (Exited 1 [] ''unknown command'', w))"

text \<open>
  A small repository that only knows \<^verbatim>\<open>git checkout <branch>\<close>: the checkout of a local
  branch moves \<open>HEAD\<close> to it, anything else fails.
\<close>

record repo =
  head_branch :: "string option"
  local_heads :: "string list"

definition tiny_git :: "repo subprocess" where
  "tiny_git command cwd r =
     (case command of
        [g, c, b] \<Rightarrow>
          if g = ''git'' \<and> c = ''checkout'' \<and> b \<in> set (local_heads r)
          then (Exited 0 [] (''Switched to branch '' @ b), r\<lparr>head_branch := Some b\<rparr>)
          else (Exited 1 [] ''error: pathspec did not match'', r)
      | _ \<Rightarrow> (Exited 1 [] ''unsupported'', r))"


text \<open>
  Concrete repositories, as the answers \<^verbatim>\<open>git\<close> gives in them. In \<open>rebasing_repo\<close> a
  rebase is under way: \<open>HEAD\<close> is detached, and the listing marks it as
  \<^verbatim>\<open>(no branch, rebasing main)\<close>. In \<open>detached_repo\<close> a commit is checked out.
  In \<open>trunk_repo\<close> the remote's default branch is \<^verbatim>\<open>trunk\<close> and a branch
  \<^verbatim>\<open>main\<close> exists as well.
\<close>

definition rebasing_repo :: "(string list \<times> proc_outcome) list" where
  "rebasing_repo =
     [([''git'', ''branch''], Exited 0 ''* (no branch, rebasing main)\<newline>  main\<newline>'' []),
      ([''git'', ''--no-pager'', ''branch'', ''--show-current''], Exited 0 [] [])]"

definition detached_repo :: "(string list \<times> proc_outcome) list" where
  "detached_repo =
     [([''git'', ''branch''], Exited 0 ''* (HEAD detached at 1a2b3c4)\<newline>  main\<newline>'' []),
      ([''git'', ''--no-pager'', ''branch'', ''--show-current''], Exited 0 [] [])]"

definition trunk_repo :: "(string list \<times> proc_outcome) list" where
  "trunk_repo =
     [([''git'', ''symbolic-ref'', ''refs/remotes/origin/HEAD''],
         Exited 0 ''refs/remotes/origin/trunk\<newline>'' []),
      ([''git'', ''branch''],
         Exited 0 ''* (HEAD detached at 1a2b3c4)\<newline>  main\<newline>  trunk\<newline>'' []),
      ([''git'', ''branch'', ''-r''],
         Exited 0 ''  origin/HEAD -> origin/trunk\<newline>  origin/main\<newline>  origin/trunk\<newline>'' []),
      ([''git'', ''--no-pager'', ''fetch'', ''origin''], Exited 0 [] []),
      ([''git'', ''--no-pager'', ''branch'', ''--format=%(refname:short)''],
         Exited 0 ''main\<newline>trunk\<newline>'' []),
      ([''git'', ''--no-pager'', ''branch'', ''-r'', ''--format=%(refname:short)''],
         Exited 0 ''origin/HEAD\<newline>origin/main\<newline>origin/trunk\<newline>'' [])]"

definition here :: GitOperations where
  "here = \<lparr>repo_path = ''.''\<rparr>"

text \<open>
  \<open>local_repo\<close>: a commit is checked out, the local branches are \<^verbatim>\<open>develop\<close>,
  \<^verbatim>\<open>main\<close> and \<^verbatim>\<open>master\<close>, and there is no remote.
\<close>

definition local_repo :: "(string list \<times> proc_outcome) list" where
  "local_repo =
     [([''git'', ''symbolic-ref'', ''refs/remotes/origin/HEAD''],
         Exited 128 [] ''fatal: ref refs/remotes/origin/HEAD is not a symbolic ref''),
      ([''git'', ''branch''],
         Exited 0 ''* (HEAD detached at 1a2b3c4)\<newline>  develop\<newline>  main\<newline>  master\<newline>'' []),
      ([''git'', ''branch'', ''-r''], Exited 0 [] []),
      ([''git'', ''--no-pager'', ''fetch'', ''origin''],
         Exited 128 [] ''fatal: origin does not appear to be a git repository''),
      ([''git'', ''--no-pager'', ''branch'', ''--format=%(refname:short)''],
         Exited 0 ''(HEAD detached at 1a2b3c4)\<newline>develop\<newline>main\<newline>master\<newline>'' []),
      ([''git'', ''--no-pager'', ''branch'', ''-r'', ''--format=%(refname:short)''], Exited 0 [] [])]"

text \<open>
  \<open>clean_repo\<close>: on \<^verbatim>\<open>main\<close> with nothing to commit. \<open>rejected_push_repo\<close>: on
  \<^verbatim>\<open>main\<close> with changes to commit, and the remote refuses the credentials.
\<close>

definition clean_repo :: "(string list \<times> proc_outcome) list" where
  "clean_repo =
     [([''git'', ''--no-pager'', ''branch'', ''--show-current''], Exited 0 ''main\<newline>'' []),
      ([''git'', ''--no-pager'', ''add'', ''.''], Exited 0 [] []),
      ([''git'', ''--no-pager'', ''diff'', ''--cached'', ''--quiet''], Exited 0 [] [])]"

definition rejected_push_repo :: "(string list \<times> proc_outcome) list" where
  "rejected_push_repo =
     [([''git'', ''--no-pager'', ''branch'', ''--show-current''], Exited 0 ''main\<newline>'' []),
      ([''git'', ''--no-pager'', ''add'', ''.''], Exited 0 [] []),
      ([''git'', ''--no-pager'', ''diff'', ''--cached'', ''--quiet''], Exited 1 [] []),
      ([''git'', ''--no-pager'', ''commit'', ''-m'', ''update''],
         Exited 0 ''[main 5e6f7a8] update\<newline> 1 file changed, 1 insertion(+)\<newline>'' []),
      ([''git'', ''--no-pager'', ''push'', ''origin'', ''main''],
         Exited 128 [] ''fatal: Authentication failed for https://example.com/repo.git/\<newline>''),
      ([''git'', ''--no-pager'', ''push'', ''-u'', ''origin'', ''main''],
         Exited 128 [] ''fatal: Authentication failed for https://example.com/repo.git/\<newline>''),
      ([''git'', ''push'', ''origin'', ''main''],
         Exited 128 [] ''fatal: Authentication failed for https://example.com/repo.git/\<newline>''),
      ([''git'', ''push'', ''--set-upstream'', ''origin'', ''main''],
         Exited 128 [] ''fatal: Authentication failed for https://example.com/repo.git/\<newline>'')]"

text \<open>
  \<open>no_upstream_repo\<close>: on \<^verbatim>\<open>main\<close>, and the first push is refused for want of an
  upstream branch; the push that sets it goes through.
\<close>

definition no_upstream_repo :: "(string list \<times> proc_outcome) list" where
  "no_upstream_repo =
     [([''git'', ''push'', ''origin'', ''main''],
         Exited 128 [] ''fatal: The current branch main has no upstream branch.\<newline>''),
      ([''git'', ''push'', ''--set-upstream'', ''origin'', ''main''],
         Exited 0 [] ''branch main set up to track origin/main.\<newline>'')]"

text \<open>
  \<open>branchless_repo\<close>: no local and no remote branch exists (a repository without
  commits and without a remote), and the query for the current branch does not succeed.
\<close>

definition branchless_repo :: "(string list \<times> proc_outcome) list" where
  "branchless_repo =
     [([''git'', ''symbolic-ref'', ''refs/remotes/origin/HEAD''],
         Exited 128 [] ''fatal: ref refs/remotes/origin/HEAD is not a symbolic ref\<newline>''),
      ([''git'', ''branch''], Exited 0 [] []),
      ([''git'', ''branch'', ''-r''], Exited 0 [] []),
      ([''git'', ''--no-pager'', ''branch'', ''--show-current''],
         Exited 129 [] ''error: unknown option show-current\<newline>''),
      ([''git'', ''--no-pager'', ''fetch'', ''origin''],
         Exited 128 [] ''fatal: origin does not appear to be a git repository\<newline>''),
      ([''git'', ''--no-pager'', ''branch'', ''--format=%(refname:short)''], Exited 0 [] []),
      ([''git'', ''--no-pager'', ''branch'', ''-r'', ''--format=%(refname:short)''], Exited 0 [] []),
      ([''git'', ''--no-pager'', ''checkout'', ''-b'', ''main''],
         Exited 0 [] ''Switched to a new branch main\<newline>''),
      ([''git'', ''--no-pager'', ''add'', ''.''], Exited 0 [] []),
      ([''git'', ''--no-pager'', ''diff'', ''--cached'', ''--quiet''], Exited 0 [] [])]"

text \<open>
  \<open>bad_name_repo\<close>: a commit is checked out, \<^verbatim>\<open>main\<close> is the only branch, and the
  requested name \<^verbatim>\<open>feature..x\<close> is one \<^verbatim>\<open>git\<close> refuses to create.
  \<open>dirty_repo\<close>: the branches \<^verbatim>\<open>main\<close> and \<^verbatim>\<open>release\<close> exist, and local changes
  stand in the way of checking out \<^verbatim>\<open>release\<close> but not \<^verbatim>\<open>main\<close>.
\<close>

definition bad_name_repo :: "(string list \<times> proc_outcome) list" where
  "bad_name_repo =
     [([''git'', ''checkout'', ''feature..x''],
         Exited 1 [] ''error: pathspec feature..x did not match any file(s) known to git\<newline>''),
      ([''git'', ''branch''], Exited 0 ''* (HEAD detached at 1a2b3c4)\<newline>  main\<newline>'' []),
      ([''git'', ''branch'', ''-r''], Exited 0 [] []),
      ([''git'', ''show-ref'', ''--verify'', ''--quiet'', ''refs/remotes/origin/feature..x''],
         Exited 128 [] []),
      ([''git'', ''checkout'', ''-b'', ''feature..x''],
         Exited 128 [] ''fatal: feature..x is not a valid branch name\<newline>''),
      ([''git'', ''checkout'', ''main''], Exited 0 [] ''Switched to branch main\<newline>'')]"

text \<open>
  \<open>develop_only_repo\<close>: as \<open>bad_name_repo\<close>, but the only branch is
  \<^verbatim>\<open>develop\<close>; neither \<^verbatim>\<open>main\<close> nor \<^verbatim>\<open>origin/main\<close> exists.
\<close>

definition develop_only_repo :: "(string list \<times> proc_outcome) list" where
  "develop_only_repo =
     [([''git'', ''checkout'', ''feature..x''],
         Exited 1 [] ''error: pathspec feature..x did not match any file(s) known to git\<newline>''),
      ([''git'', ''branch''], Exited 0 ''* (HEAD detached at 1a2b3c4)\<newline>  develop\<newline>'' []),
      ([''git'', ''branch'', ''-r''], Exited 0 [] []),
      ([''git'', ''show-ref'', ''--verify'', ''--quiet'', ''refs/remotes/origin/feature..x''],
         Exited 1 [] []),
      ([''git'', ''checkout'', ''-b'', ''feature..x''],
         Exited 128 [] ''fatal: feature..x is not a valid branch name\<newline>''),
      ([''git'', ''show-ref'', ''--verify'', ''--quiet'', ''refs/remotes/origin/main''],
         Exited 1 [] []),
      ([''git'', ''checkout'', ''-b'', ''main''],
         Exited 0 [] ''Switched to a new branch main\<newline>'')]"

definition dirty_repo :: "(string list \<times> proc_outcome) list" where
  "dirty_repo =
     [([''git'', ''checkout'', ''release''],
         Exited 1 [] ''error: Your local changes to the following files would be overwritten by checkout\<newline>''),
      ([''git'', ''branch''],
         Exited 0 ''* (HEAD detached at 1a2b3c4)\<newline>  main\<newline>  release\<newline>'' []),
      ([''git'', ''branch'', ''-r''], Exited 0 [] []),
      ([''git'', ''checkout'', ''main''], Exited 0 [] ''Switched to branch main\<newline>'')]"

text \<open>\<open>two_branches\<close>: the small repository with a commit checked out and two local branches.\<close>

definition two_branches :: repo where
  "two_branches = \<lparr>head_branch = None, local_heads = [''main'', ''develop'']\<rparr>"




declare utils_run_git_command.simps [simp del]
declare ops_run_git_command.simps [simp del]

section \<open>The command runner\<close>






section \<open>Detached HEAD and the current branch\<close>

text \<open>
  Claim C10. In the class, whenever the query \<^verbatim>\<open>branch --show-current\<close> does not
  succeed (non-zero exit, expired timeout or a call that could not be started),
  \<^verbatim>\<open>get_current_branch\<close> returns \<^verbatim>\<open>None\<close> and \<^verbatim>\<open>is_detached_head\<close> returns
  \<^verbatim>\<open>True\<close>, whatever \<open>HEAD\<close> points at: a failed query and a detached \<open>HEAD\<close>
  look the same to the caller.
\<close>

theorem failed_query_reads_as_detached:
  fixes sp :: "'w subprocess"
  assumes "\<not> fst (fst (ops_run_git_command sp self [''branch'', ''--show-current''] True s))"
  shows "fst (ops_get_current_branch sp self s) = None \<and> fst (ops_is_detached_head sp self s)"
  using assms
  by (auto simp: ops_get_current_branch_def ops_is_detached_head_def split: prod.splits)

theorem failed_query_reads_as_detached_witness:
  "\<not> fst (fst (ops_run_git_command
                 (scripted [([''git'', ''--no-pager'', ''branch'', ''--show-current''],
                             TimeoutExpired ''timed out after 30 seconds'')])
                 \<lparr>repo_path = ''.''\<rparr> [''branch'', ''--show-current''] True ((), [])))
   \<and> fst (ops_get_current_branch
            (scripted [([''git'', ''--no-pager'', ''branch'', ''--show-current''],
                        TimeoutExpired ''timed out after 30 seconds'')])
            \<lparr>repo_path = ''.''\<rparr> ((), [])) = None
   \<and> fst (ops_is_detached_head
            (scripted [([''git'', ''--no-pager'', ''branch'', ''--show-current''],
                        TimeoutExpired ''timed out after 30 seconds'')])
            \<lparr>repo_path = ''.''\<rparr> ((), []))"
proof -
  let ?sp = "scripted [([''git'', ''--no-pager'', ''branch'', ''--show-current''],
                        TimeoutExpired ''timed out after 30 seconds'')]"
  have failed: "\<not> fst (fst (ops_run_git_command ?sp \<lparr>repo_path = ''.''\<rparr>
                               [''branch'', ''--show-current''] True ((), [])))"
    by (simp add: scripted_def Let_def ops_run_git_command.simps)
  from failed failed_query_reads_as_detached [OF failed] show ?thesis by blast
qed

lemma utils_detached_loop_iff:
  "utils_detached_loop ls \<longleftrightarrow> (\<exists>l \<in> set ls. py_startswith (py_strip l) ''* (HEAD detached'')"
  by (induction ls) auto

text \<open>
  What each variant reads. The class reports a detached \<open>HEAD\<close> exactly when
  \<^verbatim>\<open>get_current_branch\<close> is \<^verbatim>\<open>None\<close>, that is when the query
  \<^verbatim>\<open>branch --show-current\<close> failed or printed nothing. The free function reports it
  exactly when \<^verbatim>\<open>git branch\<close> succeeded and one of its lines, stripped, starts with
  \<^verbatim>\<open>* (HEAD detached\<close>; it knows no other way in which the listing marks a detached
  \<open>HEAD\<close>.
\<close>

theorem detached_head_readings:
  fixes sp :: "'w subprocess"
  assumes q1: "fst (ops_run_git_command sp self [''branch'', ''--show-current''] True (w, tr)) = (ok1, out1)"
      and q2: "fst (utils_run_git_command sp [''git'', ''branch''] None (w, tr')) = (ok2, out2)"
  shows "(fst (ops_is_detached_head sp self (w, tr)) \<longleftrightarrow> fst (ops_get_current_branch sp self (w, tr)) = None)
       \<and> (fst (ops_is_detached_head sp self (w, tr)) \<longleftrightarrow> \<not> ok1 \<or> out1 = [])
       \<and> (fst (utils_is_detached_head sp (w, tr')) \<longleftrightarrow> ok2 \<and> has_detached_marker out2)
       \<and> (ok1 \<and> ok2 \<and> (out1 = [] \<longleftrightarrow> has_detached_marker out2)
            \<longrightarrow> fst (ops_is_detached_head sp self (w, tr)) = fst (utils_is_detached_head sp (w, tr')))"
proof -
  have a: "fst (ops_is_detached_head sp self (w, tr)) \<longleftrightarrow> fst (ops_get_current_branch sp self (w, tr)) = None"
    by (simp add: ops_is_detached_head_def split: prod.splits)
  have b: "fst (ops_get_current_branch sp self (w, tr)) = None \<longleftrightarrow> \<not> ok1 \<or> out1 = []"
    using q1 unfolding ops_get_current_branch_def
    by (cases "ops_run_git_command sp self [''branch'', ''--show-current''] True (w, tr)") auto
  have c: "fst (utils_is_detached_head sp (w, tr')) \<longleftrightarrow> ok2 \<and> has_detached_marker out2"
    using q2 unfolding utils_is_detached_head_def has_detached_marker_def
    by (cases "utils_run_git_command sp [''git'', ''branch''] None (w, tr')")
       (auto simp: utils_detached_loop_iff)
  from a b c show ?thesis by auto
qed

theorem detached_head_readings_example:
  "fst (ops_run_git_command (scripted detached_repo) here [''branch'', ''--show-current''] True ((), []))
      = (True, [])
   \<and> fst (utils_run_git_command (scripted detached_repo) [''git'', ''branch''] None ((), []))
      = (True, ''* (HEAD detached at 1a2b3c4)\<newline>  main'')
   \<and> has_detached_marker ''* (HEAD detached at 1a2b3c4)\<newline>  main''
   \<and> fst (ops_is_detached_head (scripted detached_repo) here ((), []))
   \<and> fst (utils_is_detached_head (scripted detached_repo) ((), []))"
proof -
  have q1: "fst (ops_run_git_command (scripted detached_repo) here [''branch'', ''--show-current''] True ((), []))
      = (True, [])"
    by (simp add: scripted_def detached_repo_def here_def Let_def py_strip_def ops_run_git_command.simps)
  have q2: "fst (utils_run_git_command (scripted detached_repo) [''git'', ''branch''] None ((), []))
      = (True, ''* (HEAD detached at 1a2b3c4)\<newline>  main'')"
    by (simp add: scripted_def detached_repo_def Let_def py_strip_def py_isspace_def utils_run_git_command.simps)
  have m: "has_detached_marker ''* (HEAD detached at 1a2b3c4)\<newline>  main''"
    by (simp add: has_detached_marker_def py_split_def py_strip_def py_isspace_def)
  from detached_head_readings [OF q1 q2] q1 q2 m show ?thesis by blast
qed

text \<open>
  Claim C6 at a failing input. A rebase is under way, so \<open>HEAD\<close> points at no branch:
  the query for the current branch prints nothing and the class reports a detached
  \<open>HEAD\<close>. The listing marks the state as \<^verbatim>\<open>(no branch, rebasing main)\<close>, and
  \<^verbatim>\<open>git_utils.is_detached_head\<close>, whose docstring promises \<^verbatim>\<open>True\<close> in detached
  \<open>HEAD\<close> state, returns \<^verbatim>\<open>False\<close>. The two variants are not equivalent here.
\<close>

theorem detached_head_variants_differ:
  "fst (ops_get_current_branch (scripted rebasing_repo) here ((), [])) = None
   \<and> fst (ops_is_detached_head (scripted rebasing_repo) here ((), []))
   \<and> \<not> fst (utils_is_detached_head (scripted rebasing_repo) ((), []))"
  by (simp add: ops_is_detached_head_def ops_get_current_branch_def utils_is_detached_head_def
        scripted_def rebasing_repo_def here_def Let_def py_strip_def py_isspace_def py_split_def
        utils_run_git_command.simps ops_run_git_command.simps)

section \<open>The default branch\<close>

lemma fst_pick:
  "fst (case find (\<lambda>c. c \<in> set av) cs of
          Some c \<Rightarrow> (Some c, s2)
        | None \<Rightarrow> (case av of first # rest \<Rightarrow> (Some first, s2) | [] \<Rightarrow> (None, s2)))
   = resolution_order cs None av"
  by (cases "find (\<lambda>c. c \<in> set av) cs"; cases av) (simp_all add: resolution_order_def)

lemma resolution_order_first:
  "c \<in> set available \<Longrightarrow> resolution_order (c # cs) None available = Some c"
  by (simp add: resolution_order_def)

lemma utils_get_default_branch_order:
  fixes sp :: "'w subprocess"
  assumes q: "utils_run_git_command sp [''git'', ''symbolic-ref'', ''refs/remotes/origin/HEAD''] None s
                = (r, s1)"
  shows "fst (utils_get_default_branch list_of_set sp s)
           = resolution_order default_candidates (remote_default_of r)
               (fst (utils_get_available_branches list_of_set sp s1))"
proof (cases "remote_default_of r")
  case None
  obtain ok out where r: "r = (ok, out)" by (cases r)
  obtain av s2 where av: "utils_get_available_branches list_of_set sp s1 = (av, s2)"
    by (cases "utils_get_available_branches list_of_set sp s1")
  from None r have no: "(ok \<and> py_in ''refs/remotes/origin/'' out) = False"
    by (simp add: remote_default_of_def split: if_splits)
  have "fst (utils_get_default_branch list_of_set sp s)
          = fst (case find (\<lambda>c. c \<in> set av) default_candidates of
                   Some c \<Rightarrow> (Some c, s2)
                 | None \<Rightarrow> (case av of first # rest \<Rightarrow> (Some first, s2) | [] \<Rightarrow> (None, s2)))"
    using q r av no unfolding utils_get_default_branch_def by (cases ok) simp_all
  also have "\<dots> = resolution_order default_candidates None av"
    by (rule fst_pick)
  finally show ?thesis using None av by simp
next
  case (Some b)
  obtain ok out where r: "r = (ok, out)" by (cases r)
  from Some r have yes: "ok \<and> py_in ''refs/remotes/origin/'' out"
    and b: "b = py_strip (last (py_split out ''refs/remotes/origin/''))"
    by (auto simp: remote_default_of_def split: if_splits)
  have "fst (utils_get_default_branch list_of_set sp s) = Some b"
    using q r yes b unfolding utils_get_default_branch_def by simp
  then show ?thesis using Some by (simp add: resolution_order_def)
qed

lemma ops_find_best_branch_order:
  fixes sp :: "'w subprocess"
  assumes a: "ops_get_available_branches sp self (snd (ops_fetch_remote_branches sp self s'))
                = ((local_branches, remote_branches), s2)"
  shows "fst (ops_find_best_branch list_of_set sp self s')
           = resolution_order priority_branches None (list_of_set (local_branches @ remote_branches))"
proof -
  obtain f s1 where f: "ops_fetch_remote_branches sp self s' = (f, s1)"
    by (cases "ops_fetch_remote_branches sp self s'")
  with a have a': "ops_get_available_branches sp self s1 = ((local_branches, remote_branches), s2)"
    by simp
  have "fst (ops_find_best_branch list_of_set sp self s')
          = fst (case find (\<lambda>c. c \<in> set (list_of_set (local_branches @ remote_branches))) priority_branches of
                   Some c \<Rightarrow> (Some c, s2)
                 | None \<Rightarrow> (case list_of_set (local_branches @ remote_branches) of
                               first # rest \<Rightarrow> (Some first, s2) | [] \<Rightarrow> (None, s2)))"
    using f a' unfolding ops_find_best_branch_def by (simp add: Let_def)
  also have "\<dots> = resolution_order priority_branches None (list_of_set (local_branches @ remote_branches))"
    by (rule fst_pick)
  finally show ?thesis .
qed

text \<open>
  Claim C1, as amended. \<^verbatim>\<open>git_utils.get_default_branch\<close> follows the order of the
  specification: the remote's symbolic default when the query for it succeeds and prints a
  ref under \<^verbatim>\<open>refs/remotes/origin/\<close>; else the first of \<^verbatim>\<open>main\<close>, \<^verbatim>\<open>master\<close>,
  \<^verbatim>\<open>develop\<close>, \<^verbatim>\<open>development\<close> among the available branches; else the first
  available branch; else nothing. \<^verbatim>\<open>GitOperations.find_best_branch\<close> never asks for
  the remote's default and knows the three names \<^verbatim>\<open>main\<close>, \<^verbatim>\<open>master\<close>,
  \<^verbatim>\<open>develop\<close> only; after them it takes the first branch of the combined set. In both,
  a branch \<^verbatim>\<open>main\<close> among the available ones is returned whatever else is present
  (in \<^verbatim>\<open>git_utils\<close>: when the remote's default is not resolvable).
\<close>

theorem default_branch_resolution:
  fixes sp :: "'w subprocess"
  assumes q: "utils_run_git_command sp [''git'', ''symbolic-ref'', ''refs/remotes/origin/HEAD''] None s
                = (r, s1)"
      and a: "ops_get_available_branches sp self (snd (ops_fetch_remote_branches sp self s'))
                = ((local_branches, remote_branches), s2)"
  shows "fst (utils_get_default_branch list_of_set sp s)
           = defaultBranch_spec (remote_default_of r) (fst (utils_get_available_branches list_of_set sp s1))
       \<and> fst (ops_find_best_branch list_of_set sp self s')
           = resolution_order [''main'', ''master'', ''develop''] None
               (list_of_set (local_branches @ remote_branches))
       \<and> (remote_default_of r = None
            \<and> ''main'' \<in> set (fst (utils_get_available_branches list_of_set sp s1))
            \<longrightarrow> fst (utils_get_default_branch list_of_set sp s) = Some ''main'')
       \<and> (''main'' \<in> set (list_of_set (local_branches @ remote_branches))
            \<longrightarrow> fst (ops_find_best_branch list_of_set sp self s') = Some ''main'')"
proof -
  note u = utils_get_default_branch_order [OF q, of list_of_set]
  note o = ops_find_best_branch_order [OF a, of list_of_set]
  have 1: "fst (utils_get_default_branch list_of_set sp s)
           = defaultBranch_spec (remote_default_of r) (fst (utils_get_available_branches list_of_set sp s1))"
    using u by (simp add: defaultBranch_spec_def default_candidates_def)
  have 2: "fst (ops_find_best_branch list_of_set sp self s')
           = resolution_order [''main'', ''master'', ''develop''] None
               (list_of_set (local_branches @ remote_branches))"
    using o by (simp add: priority_branches_def)
  have 3: "remote_default_of r = None
            \<and> ''main'' \<in> set (fst (utils_get_available_branches list_of_set sp s1))
            \<longrightarrow> fst (utils_get_default_branch list_of_set sp s) = Some ''main''"
    using u by (simp add: default_candidates_def resolution_order_first)
  have 4: "''main'' \<in> set (list_of_set (local_branches @ remote_branches))
            \<longrightarrow> fst (ops_find_best_branch list_of_set sp self s') = Some ''main''"
    using o by (simp add: priority_branches_def resolution_order_first)
  from 1 2 3 4 show ?thesis by blast
qed

theorem default_branch_resolution_witness:
  "remote_default_of (fst (utils_run_git_command (scripted local_repo)
       [''git'', ''symbolic-ref'', ''refs/remotes/origin/HEAD''] None ((), []))) = None
   \<and> ''main'' \<in> set (fst (utils_get_available_branches remdups (scripted local_repo)
                        (snd (utils_run_git_command (scripted local_repo)
                           [''git'', ''symbolic-ref'', ''refs/remotes/origin/HEAD''] None ((), [])))))
   \<and> fst (utils_get_default_branch remdups (scripted local_repo) ((), [])) = Some ''main''
   \<and> fst (ops_find_best_branch remdups (scripted local_repo) here ((), [])) = Some ''main''"
proof -
  let ?sp = "scripted local_repo"
  let ?q = "utils_run_git_command ?sp [''git'', ''symbolic-ref'', ''refs/remotes/origin/HEAD''] None ((), [])"
  let ?a = "ops_get_available_branches ?sp here (snd (ops_fetch_remote_branches ?sp here ((), [])))"
  have q: "?q = (fst ?q, snd ?q)" by simp
  have a: "?a = ((fst (fst ?a), snd (fst ?a)), snd ?a)" by simp
  have h1: "remote_default_of (fst ?q) = None" by code_simp
  have h2: "''main'' \<in> set (fst (utils_get_available_branches remdups ?sp (snd ?q)))" by code_simp
  have h3: "''main'' \<in> set (remdups (fst (fst ?a) @ snd (fst ?a)))" by code_simp
  from default_branch_resolution [OF q a, of remdups] h1 h2 h3 show ?thesis by blast
qed

text \<open>
  Counterexample to C1 as stated: the remote's default branch is \<^verbatim>\<open>trunk\<close> and is
  resolvable, so the stated order returns \<^verbatim>\<open>trunk\<close>, as \<^verbatim>\<open>get_default_branch\<close>
  does; \<^verbatim>\<open>find_best_branch\<close> returns \<^verbatim>\<open>main\<close>.
\<close>

theorem find_best_branch_ignores_remote_default:
  "remote_default_of (fst (utils_run_git_command (scripted trunk_repo)
       [''git'', ''symbolic-ref'', ''refs/remotes/origin/HEAD''] None ((), []))) = Some ''trunk''
   \<and> fst (utils_get_default_branch remdups (scripted trunk_repo) ((), [])) = Some ''trunk''
   \<and> fst (ops_find_best_branch remdups (scripted trunk_repo) here ((), [])) = Some ''main''"
  by code_simp

section \<open>The available branches\<close>





















section \<open>Commands run by the operations\<close>

lemma commands_of_append [simp]: "commands_of (a @ b) = commands_of a @ commands_of b"
  by (simp add: commands_of_def)

lemma runs_only_iff:
  "runs_only P s s' \<longleftrightarrow>
     (\<exists>new. commands_of (snd s') = commands_of (snd s) @ new \<and> list_all P new)"
proof
  assume r: "runs_only P s s'"
  have "commands_of (snd s') = take (length (snd s)) (commands_of (snd s')) @ issued s s'"
    by (simp add: issued_def)
  with r show "\<exists>new. commands_of (snd s') = commands_of (snd s) @ new \<and> list_all P new"
    unfolding runs_only_def by metis
next
  assume "\<exists>new. commands_of (snd s') = commands_of (snd s) @ new \<and> list_all P new"
  then obtain new where n: "commands_of (snd s') = commands_of (snd s) @ new" and p: "list_all P new"
    by blast
  have l: "length (commands_of (snd s)) = length (snd s)" by (simp add: commands_of_def)
  from n l have "take (length (snd s)) (commands_of (snd s')) = commands_of (snd s)"
    and "issued s s' = new"
    by (simp_all add: issued_def)
  with p show "runs_only P s s'" by (simp add: runs_only_def)
qed

lemma issued_append:
  "commands_of (snd s') = commands_of (snd s) @ new \<Longrightarrow> issued s s' = new"
  by (simp add: issued_def commands_of_def)

lemma runs_only_refl [simp]: "runs_only P s s"
  by (simp add: runs_only_iff)

lemma runs_only_trans:
  "runs_only P s s1 \<Longrightarrow> runs_only P s1 s2 \<Longrightarrow> runs_only P s s2"
  by (auto simp: runs_only_iff)

lemma runs_only_mono:
  "runs_only P s s' \<Longrightarrow> (\<And>c. P c \<Longrightarrow> Q c) \<Longrightarrow> runs_only Q s s'"
  unfolding runs_only_iff by (metis (mono_tags, lifting) list_all_iff)

lemma runs_only_issued: "runs_only P s s' \<Longrightarrow> c \<in> set (issued s s') \<Longrightarrow> P c"
  by (simp add: runs_only_def list_all_iff)

lemma issued_trans:
  "runs_only P s s1 \<Longrightarrow> runs_only Q s1 s2 \<Longrightarrow> issued s s2 = issued s s1 @ issued s1 s2"
proof -
  assume a: "runs_only P s s1" and b: "runs_only Q s1 s2"
  from a obtain n1 where n1: "commands_of (snd s1) = commands_of (snd s) @ n1"
    by (auto simp: runs_only_iff)
  from b obtain n2 where n2: "commands_of (snd s2) = commands_of (snd s1) @ n2"
    by (auto simp: runs_only_iff)
  from n1 n2 have "commands_of (snd s2) = commands_of (snd s) @ (n1 @ n2)" by simp
  from issued_append [OF this] issued_append [OF n1] issued_append [OF n2]
  show ?thesis by simp
qed

lemma utils_run_commands:
  "utils_run_git_command sp command cwd s = (r, s')
     \<Longrightarrow> commands_of (snd s') = commands_of (snd s) @ [command]"
  by (cases s) (auto simp: utils_run_git_command.simps Let_def commands_of_def split: prod.splits)

lemma ops_run_commands:
  "ops_run_git_command sp self command capture s = (r, s')
     \<Longrightarrow> commands_of (snd s') = commands_of (snd s) @ [[''git'', ''--no-pager''] @ command]"
  by (cases s) (auto simp: ops_run_git_command.simps Let_def commands_of_def split: prod.splits)

lemma utils_run_only:
  "utils_run_git_command sp command cwd s = (r, s') \<Longrightarrow> P command \<Longrightarrow> runs_only P s s'"
  by (auto simp: runs_only_iff dest: utils_run_commands)

lemma ops_run_only:
  "ops_run_git_command sp self command capture s = (r, s')
     \<Longrightarrow> P ([''git'', ''--no-pager''] @ command) \<Longrightarrow> runs_only P s s'"
  by (auto simp: runs_only_iff dest: ops_run_commands)

section \<open>The push of the class\<close>

lemma ops_run_quiet:
  "ops_run_git_command sp self command capture s = (r, s')
     \<Longrightarrow> \<not> is_commit_or_push ([''git'', ''--no-pager''] @ command)
           \<longrightarrow> runs_only (\<lambda>c. \<not> is_commit_or_push c) s s'"
  by (auto intro: ops_run_only)

lemmas quiet_simps = is_commit_or_push_def ops_subcommand_def Let_def

lemma ops_get_current_branch_quiet:
  "ops_get_current_branch sp self s = (r, s') \<Longrightarrow> runs_only (\<lambda>c. \<not> is_commit_or_push c) s s'"
  unfolding ops_get_current_branch_def
  by (auto simp: quiet_simps split: prod.splits if_splits dest!: ops_run_quiet)

lemma ops_fetch_remote_branches_quiet:
  "ops_fetch_remote_branches sp self s = (r, s') \<Longrightarrow> runs_only (\<lambda>c. \<not> is_commit_or_push c) s s'"
  unfolding ops_fetch_remote_branches_def
  by (auto simp: quiet_simps split: prod.splits dest!: ops_run_quiet)

lemma ops_get_available_branches_quiet:
  "ops_get_available_branches sp self s = (r, s') \<Longrightarrow> runs_only (\<lambda>c. \<not> is_commit_or_push c) s s'"
  unfolding ops_get_available_branches_def
  by (auto simp: quiet_simps split: prod.splits dest!: ops_run_quiet intro: runs_only_trans)

lemma ops_create_branch_from_remote_quiet:
  "ops_create_branch_from_remote sp self b s = (r, s') \<Longrightarrow> runs_only (\<lambda>c. \<not> is_commit_or_push c) s s'"
  unfolding ops_create_branch_from_remote_def
  by (auto simp: quiet_simps split: prod.splits dest!: ops_run_quiet)

lemma ops_create_new_branch_quiet:
  "ops_create_new_branch sp self b base s = (r, s') \<Longrightarrow> runs_only (\<lambda>c. \<not> is_commit_or_push c) s s'"
  unfolding ops_create_new_branch_def
  by (auto simp: quiet_simps split: prod.splits option.splits if_splits dest!: ops_run_quiet)

lemma ops_switch_to_branch_quiet:
  "ops_switch_to_branch sp self b s = (r, s') \<Longrightarrow> runs_only (\<lambda>c. \<not> is_commit_or_push c) s s'"
  unfolding ops_switch_to_branch_def
  by (auto simp: quiet_simps split: prod.splits dest!: ops_run_quiet)

lemma ops_find_best_branch_quiet:
  assumes "ops_find_best_branch list_of_set sp self s = (r, s')"
  shows "runs_only (\<lambda>c. \<not> is_commit_or_push c) s s'"
proof -
  obtain f s1 where f: "ops_fetch_remote_branches sp self s = (f, s1)"
    by (cases "ops_fetch_remote_branches sp self s")
  obtain a s2 where a: "ops_get_available_branches sp self s1 = (a, s2)"
    by (cases "ops_get_available_branches sp self s1")
  from assms f a have "s' = s2"
    unfolding ops_find_best_branch_def
    by (auto simp: Let_def split: prod.splits option.splits list.splits)
  with ops_fetch_remote_branches_quiet [OF f] ops_get_available_branches_quiet [OF a]
  show ?thesis by (blast intro: runs_only_trans)
qed

lemma ops_ensure_branch_available_quiet:
  assumes "ops_ensure_branch_available sp self b s = (r, s')"
  shows "runs_only (\<lambda>c. \<not> is_commit_or_push c) s s'"
proof -
  obtain a s1 where a: "ops_get_available_branches sp self s = (a, s1)"
    by (cases "ops_get_available_branches sp self s")
  from assms a have "s' = s1
      \<or> ops_create_branch_from_remote sp self b s1 = (r, s')
      \<or> ops_create_new_branch sp self b None s1 = (r, s')"
    unfolding ops_ensure_branch_available_def by (auto split: prod.splits if_splits)
  with ops_get_available_branches_quiet [OF a] show ?thesis
    by (blast intro: runs_only_trans ops_create_branch_from_remote_quiet ops_create_new_branch_quiet)
qed

lemma ops_push_resolve_quiet:
  assumes "ops_push_resolve list_of_set sp self s = (r, s')"
  shows "runs_only (\<lambda>c. \<not> is_commit_or_push c) s s'"
proof -
  obtain cur s1 where c: "ops_get_current_branch sp self s = (cur, s1)"
    by (cases "ops_get_current_branch sp self s")
  note q1 = ops_get_current_branch_quiet [OF c]
  show ?thesis
  proof (cases cur)
    case (Some b)
    with assms c have "s' = s1" unfolding ops_push_resolve_def by simp
    with q1 show ?thesis by simp
  next
    case None
    obtain t s2 where t: "ops_find_best_branch list_of_set sp self s1 = (t, s2)"
      by (cases "ops_find_best_branch list_of_set sp self s1")
    note q2 = runs_only_trans [OF q1 ops_find_best_branch_quiet [OF t]]
    show ?thesis
    proof (cases "t = None \<or> t = Some []")
      case True
      obtain cr s3 where n: "ops_create_new_branch sp self ''main'' None s2 = (cr, s3)"
        by (cases "ops_create_new_branch sp self ''main'' None s2")
      from assms c None t True n have "s' = s3"
        unfolding ops_push_resolve_def by (auto split: if_splits)
      with runs_only_trans [OF q2 ops_create_new_branch_quiet [OF n]] show ?thesis by simp
    next
      case False
      obtain av s3 where e: "ops_ensure_branch_available sp self (the t) s2 = (av, s3)"
        by (cases "ops_ensure_branch_available sp self (the t) s2")
      note q3 = runs_only_trans [OF q2 ops_ensure_branch_available_quiet [OF e]]
      obtain sw s4 where w: "ops_switch_to_branch sp self (the t) s3 = (sw, s4)"
        by (cases "ops_switch_to_branch sp self (the t) s3")
      note q4 = runs_only_trans [OF q3 ops_switch_to_branch_quiet [OF w]]
      from assms c None t False e w have "s' = s3 \<or> s' = s4"
        unfolding ops_push_resolve_def by (auto split: if_splits)
      with q3 q4 show ?thesis by blast
    qed
  qed
qed

lemma ops_stage_loop_quiet:
  "ops_stage_loop sp self files s = (r, s') \<Longrightarrow> runs_only (\<lambda>c. \<not> is_commit_or_push c) s s'"
proof (induction files arbitrary: s)
  case Nil
  then show ?case by simp
next
  case (Cons f files)
  obtain ok out s1 where a: "ops_run_git_command sp self [''add'', f] True s = ((ok, out), s1)"
    by (cases "ops_run_git_command sp self [''add'', f] True s") auto
  from ops_run_quiet [OF a] have q: "runs_only (\<lambda>c. \<not> is_commit_or_push c) s s1"
    by (simp add: quiet_simps)
  from Cons.prems a have "s' = s1 \<or> ops_stage_loop sp self files s1 = (r, s')"
    by (auto split: if_splits)
  with q Cons.IH show ?case by (blast intro: runs_only_trans)
qed

lemma ops_push_stage_quiet:
  assumes "ops_push_stage sp self files s = (r, s')"
  shows "runs_only (\<lambda>c. \<not> is_commit_or_push c) s s'"
proof -
  obtain ok out s1 where a: "ops_run_git_command sp self [''add'', ''.''] True s = ((ok, out), s1)"
    by (cases "ops_run_git_command sp self [''add'', ''.''] True s") auto
  from ops_run_quiet [OF a] have q: "runs_only (\<lambda>c. \<not> is_commit_or_push c) s s1"
    by (simp add: quiet_simps)
  from assms a have "s' = s1 \<or> (\<exists>fs. ops_stage_loop sp self fs s = (r, s'))"
    unfolding ops_push_stage_def
    by (auto simp del: ops_stage_loop.simps split: option.splits list.splits)
  with q show ?thesis by (blast intro: ops_stage_loop_quiet)
qed

text \<open>
  Claim C7. When the branch is settled, staging succeeds and the check
  \<^verbatim>\<open>diff --cached --quiet\<close> succeeds (nothing is staged), \<^verbatim>\<open>execute_git_push\<close> of the
  class returns \<^verbatim>\<open>True\<close>; the check is the last command it runs, and no command of
  the whole operation is a \<^verbatim>\<open>commit\<close> or a \<^verbatim>\<open>push\<close>.
\<close>

theorem empty_push_is_noop:
  fixes sp :: "'w subprocess"
  assumes res: "ops_push_resolve list_of_set sp self s = (Some current_branch, s1)"
      and st: "ops_push_stage sp self files s1 = (True, s2)"
      and df: "ops_run_git_command sp self [''diff'', ''--cached'', ''--quiet''] True s2
                 = ((True, out), s3)"
  shows "ops_execute_git_push list_of_set sp self generated_message message files s = (True, s3)
       \<and> issued s2 s3 = [[''git'', ''--no-pager'', ''diff'', ''--cached'', ''--quiet'']]
       \<and> (\<forall>c \<in> set (issued s s3). \<not> is_commit_or_push c)"
proof -
  have 1: "ops_execute_git_push list_of_set sp self generated_message message files s = (True, s3)"
    using res st df unfolding ops_execute_git_push_def ops_push_commit_def by simp
  have 2: "issued s2 s3 = [[''git'', ''--no-pager'', ''diff'', ''--cached'', ''--quiet'']]"
    using issued_append [OF ops_run_commands [OF df]] by simp
  from ops_run_quiet [OF df] have q3: "runs_only (\<lambda>c. \<not> is_commit_or_push c) s2 s3"
    by (simp add: quiet_simps)
  from runs_only_trans [OF runs_only_trans [OF ops_push_resolve_quiet [OF res] ops_push_stage_quiet [OF st]] q3]
  have "runs_only (\<lambda>c. \<not> is_commit_or_push c) s s3" .
  then have 3: "\<forall>c \<in> set (issued s s3). \<not> is_commit_or_push c"
    by (blast dest: runs_only_issued)
  from 1 2 3 show ?thesis by blast
qed

theorem empty_push_is_noop_witness:
  "ops_push_resolve remdups (scripted clean_repo) here ((), [])
     = (Some ''main'', snd (ops_push_resolve remdups (scripted clean_repo) here ((), [])))
   \<and> fst (ops_push_stage (scripted clean_repo) here None
            (snd (ops_push_resolve remdups (scripted clean_repo) here ((), []))))
   \<and> fst (ops_execute_git_push remdups (scripted clean_repo) here ''auto'' None None ((), []))
   \<and> commands_of (snd (snd (ops_execute_git_push remdups (scripted clean_repo) here ''auto'' None None ((), []))))
       = [[''git'', ''--no-pager'', ''branch'', ''--show-current''],
          [''git'', ''--no-pager'', ''add'', ''.''],
          [''git'', ''--no-pager'', ''diff'', ''--cached'', ''--quiet'']]"
proof -
  let ?sp = "scripted clean_repo"
  let ?r = "ops_push_resolve remdups ?sp here ((), [])"
  let ?st = "ops_push_stage ?sp here None (snd ?r)"
  let ?d = "ops_run_git_command ?sp here [''diff'', ''--cached'', ''--quiet''] True (snd ?st)"
  have res: "?r = (Some ''main'', snd ?r)" by code_simp
  have st: "?st = (True, snd ?st)" by code_simp
  have df: "?d = ((True, []), snd ?d)" by code_simp
  note t = empty_push_is_noop [OF res st df, of "''auto''" None]
  have c: "commands_of (snd (snd ?d))
       = [[''git'', ''--no-pager'', ''branch'', ''--show-current''],
          [''git'', ''--no-pager'', ''add'', ''.''],
          [''git'', ''--no-pager'', ''diff'', ''--cached'', ''--quiet'']]"
    by code_simp
  let ?e = "ops_execute_git_push remdups ?sp here ''auto'' None None ((), [])"
  from t have e: "?e = (True, snd ?d)" by blast
  have e1: "fst ?e" by (simp only: e fst_conv)
  have e2: "commands_of (snd (snd ?e))
       = [[''git'', ''--no-pager'', ''branch'', ''--show-current''],
          [''git'', ''--no-pager'', ''add'', ''.''],
          [''git'', ''--no-pager'', ''diff'', ''--cached'', ''--quiet'']]"
    by (simp only: e snd_conv c)
  have s1: "fst ?st" by code_simp
  from res s1 e1 e2 show ?thesis by blast
qed

section \<open>The push retry\<close>

lemma utils_push_retry_policy:
  fixes sp :: "'w subprocess"
  assumes p: "utils_run_git_command sp
                ([''git'', ''push''] @ (if force then [''--force''] else []) @ [''origin'', b]) None s
                = ((ok, out), s1)"
      and r: "utils_run_git_command sp [''git'', ''push'', ''--set-upstream'', ''origin'', b] None s1
                = ((ok', out'), s2)"
  shows "utils_push_branch sp force b s
           = (if ok then (True, s1)
              else if upstream_missing out then (ok', s2)
              else (False, s1))"
  using p r unfolding utils_push_branch_def by (simp add: Let_def)

lemma ops_push_retry_policy:
  fixes sp :: "'w subprocess"
  assumes d: "ops_run_git_command sp self [''diff'', ''--cached'', ''--quiet''] True s = ((False, out0), s1)"
      and c: "ops_run_git_command sp self [''commit'', ''-m'', m] True s1 = ((True, out1), s2)"
      and p: "ops_run_git_command sp self [''push'', ''origin'', b] True s2 = ((False, out2), s3)"
      and r: "ops_run_git_command sp self [''push'', ''-u'', ''origin'', b] True s3 = ((ok, out3), s4)"
      and m: "m \<noteq> []"
  shows "ops_push_commit sp self generated_message (Some m) b s = (ok, s4)"
  using d c p r m unfolding ops_push_commit_def by (simp add: Let_def)

text \<open>
  Claim C3 at a failing input. The first push is refused with a text about the
  credentials, which says nothing of an upstream branch. \<^verbatim>\<open>execute_git_push\<close> of the
  class runs the push a second time with \<^verbatim>\<open>-u\<close> all the same; the push of
  \<^verbatim>\<open>git_utils\<close> stops after the first failure, as the claim says.
\<close>

theorem class_push_retries_any_failure:
  "\<not> upstream_missing ''fatal: Authentication failed for https://example.com/repo.git/''
   \<and> \<not> fst (ops_execute_git_push remdups (scripted rejected_push_repo) here ''auto''
              (Some ''update'') None ((), []))
   \<and> commands_of (snd (snd (ops_execute_git_push remdups (scripted rejected_push_repo) here ''auto''
                              (Some ''update'') None ((), []))))
       = [[''git'', ''--no-pager'', ''branch'', ''--show-current''],
          [''git'', ''--no-pager'', ''add'', ''.''],
          [''git'', ''--no-pager'', ''diff'', ''--cached'', ''--quiet''],
          [''git'', ''--no-pager'', ''commit'', ''-m'', ''update''],
          [''git'', ''--no-pager'', ''push'', ''origin'', ''main''],
          [''git'', ''--no-pager'', ''push'', ''-u'', ''origin'', ''main'']]
   \<and> commands_of (snd (snd (utils_push_branch (scripted rejected_push_repo) False ''main'' ((), []))))
       = [[''git'', ''push'', ''origin'', ''main'']]"
  by code_simp

lemma utils_push_retries_once_for_upstream:
  "upstream_missing ''fatal: The current branch main has no upstream branch.''
   \<and> fst (utils_push_branch (scripted no_upstream_repo) False ''main'' ((), []))
   \<and> commands_of (snd (snd (utils_push_branch (scripted no_upstream_repo) False ''main'' ((), []))))
       = [[''git'', ''push'', ''origin'', ''main''],
          [''git'', ''push'', ''--set-upstream'', ''origin'', ''main'']]"
  by code_simp

section \<open>The branch resolver of \<^verbatim>\<open>git_utils\<close>\<close>

lemma utils_get_available_branches_commands:
  assumes "utils_get_available_branches list_of_set sp s = (av, s')"
  shows "commands_of (snd s') = commands_of (snd s) @ [[''git'', ''branch''], [''git'', ''branch'', ''-r'']]"
proof -
  obtain r1 s1 where a: "utils_run_git_command sp [''git'', ''branch''] None s = (r1, s1)"
    by (cases "utils_run_git_command sp [''git'', ''branch''] None s")
  obtain r2 s2 where b: "utils_run_git_command sp [''git'', ''branch'', ''-r''] None s1 = (r2, s2)"
    by (cases "utils_run_git_command sp [''git'', ''branch'', ''-r''] None s1")
  from assms a b have "s' = s2"
    unfolding utils_get_available_branches_def by (auto simp: Let_def split: prod.splits)
  with utils_run_commands [OF a] utils_run_commands [OF b] show ?thesis by simp
qed

lemma utils_get_default_branch_None_commands:
  assumes "utils_get_default_branch list_of_set sp s = (None, s')"
  shows "commands_of (snd s') = commands_of (snd s)
           @ [[''git'', ''symbolic-ref'', ''refs/remotes/origin/HEAD''],
              [''git'', ''branch''], [''git'', ''branch'', ''-r'']]"
proof -
  let ?c = "[''git'', ''symbolic-ref'', ''refs/remotes/origin/HEAD'']"
  obtain r1 s1 where a: "utils_run_git_command sp ?c None s = (r1, s1)"
    by (cases "utils_run_git_command sp ?c None s")
  obtain av s2 where b: "utils_get_available_branches list_of_set sp s1 = (av, s2)"
    by (cases "utils_get_available_branches list_of_set sp s1")
  from assms a b have "s' = s2"
    unfolding utils_get_default_branch_def
    by (auto split: prod.splits if_splits option.splits list.splits)
  with utils_run_commands [OF a] utils_get_available_branches_commands [OF b] show ?thesis by simp
qed

lemma utils_create_branch_from_remote_commands:
  assumes "utils_create_branch_from_remote sp b s = (r, s')"
  shows "issued s s' = [[''git'', ''show-ref'', ''--verify'', ''--quiet'', ''refs/remotes/origin/'' @ b],
                        [''git'', ''checkout'', ''-b'', b, ''origin/'' @ b]]
       \<or> issued s s' = [[''git'', ''show-ref'', ''--verify'', ''--quiet'', ''refs/remotes/origin/'' @ b],
                        [''git'', ''checkout'', ''-b'', b]]"
proof -
  let ?c = "[''git'', ''show-ref'', ''--verify'', ''--quiet'', ''refs/remotes/origin/'' @ b]"
  obtain r1 s1 where a: "utils_run_git_command sp ?c None s = (r1, s1)"
    by (cases "utils_run_git_command sp ?c None s")
  from assms a have
    "(\<exists>r2. utils_run_git_command sp [''git'', ''checkout'', ''-b'', b, ''origin/'' @ b] None s1 = (r2, s'))
     \<or> (\<exists>r2. utils_run_git_command sp [''git'', ''checkout'', ''-b'', b] None s1 = (r2, s'))"
    unfolding utils_create_branch_from_remote_def
    by (auto split: prod.splits if_splits)
  then show ?thesis
  proof
    assume "\<exists>r2. utils_run_git_command sp [''git'', ''checkout'', ''-b'', b, ''origin/'' @ b] None s1 = (r2, s')"
    then obtain r2 where
      "utils_run_git_command sp [''git'', ''checkout'', ''-b'', b, ''origin/'' @ b] None s1 = (r2, s')" ..
    from utils_run_commands [OF a] utils_run_commands [OF this]
    have "commands_of (snd s') = commands_of (snd s) @ [?c, [''git'', ''checkout'', ''-b'', b, ''origin/'' @ b]]"
      by simp
    from issued_append [OF this] show ?thesis by simp
  next
    assume "\<exists>r2. utils_run_git_command sp [''git'', ''checkout'', ''-b'', b] None s1 = (r2, s')"
    then obtain r2 where
      "utils_run_git_command sp [''git'', ''checkout'', ''-b'', b] None s1 = (r2, s')" ..
    from utils_run_commands [OF a] utils_run_commands [OF this]
    have "commands_of (snd s') = commands_of (snd s) @ [?c, [''git'', ''checkout'', ''-b'', b]]"
      by simp
    from issued_append [OF this] show ?thesis by simp
  qed
qed

text \<open>
  Claim C4, as amended. In \<^verbatim>\<open>git_utils\<close>, \<^verbatim>\<open>switch_to_branch\<close> without a target
  returns \<^verbatim>\<open>False\<close> as soon as \<^verbatim>\<open>get_default_branch\<close> is \<^verbatim>\<open>None\<close>; the only
  commands run are the three queries, so nothing is checked out or created, whereas every
  attempt to create a requested branch runs a \<^verbatim>\<open>checkout -b\<close>. In the class, when
  \<^verbatim>\<open>find_best_branch\<close> is \<^verbatim>\<open>None\<close> the push operation creates the branch
  \<^verbatim>\<open>main\<close> with \<^verbatim>\<open>checkout -b main\<close> and goes on with it; it gives up only when
  that creation fails.
\<close>

theorem no_candidate_resolution:
  fixes sp :: "'w subprocess"
  assumes d: "utils_get_default_branch list_of_set sp s = (None, s1)"
      and c: "ops_get_current_branch sp self s' = (None, s1')"
      and b: "ops_find_best_branch list_of_set sp self s1' = (None, s2')"
      and n: "ops_create_new_branch sp self ''main'' None s2' = (created, s3')"
  shows "utils_switch_to_branch list_of_set sp None s = (False, s1)
       \<and> issued s s1 = [[''git'', ''symbolic-ref'', ''refs/remotes/origin/HEAD''],
                        [''git'', ''branch''], [''git'', ''branch'', ''-r'']]
       \<and> (\<exists>k \<in> set (issued s0 (snd (utils_create_branch_from_remote sp t s0))).
              take 4 k = [''git'', ''checkout'', ''-b'', t])
       \<and> ops_push_resolve list_of_set sp self s' = (if created then Some ''main'' else None, s3')
       \<and> issued s2' s3' = [[''git'', ''--no-pager'', ''checkout'', ''-b'', ''main'']]"
proof -
  have 1: "utils_switch_to_branch list_of_set sp None s = (False, s1)"
    using d unfolding utils_switch_to_branch_def by simp
  have 2: "issued s s1 = [[''git'', ''symbolic-ref'', ''refs/remotes/origin/HEAD''],
                        [''git'', ''branch''], [''git'', ''branch'', ''-r'']]"
    using issued_append [OF utils_get_default_branch_None_commands [OF d]] .
  have 3: "\<exists>k \<in> set (issued s0 (snd (utils_create_branch_from_remote sp t s0))).
              take 4 k = [''git'', ''checkout'', ''-b'', t]"
    using utils_create_branch_from_remote_commands
            [of sp t s0 "fst (utils_create_branch_from_remote sp t s0)"
                        "snd (utils_create_branch_from_remote sp t s0)"]
    by auto
  have 4: "ops_push_resolve list_of_set sp self s' = (if created then Some ''main'' else None, s3')"
    using c b n unfolding ops_push_resolve_def by simp
  obtain r where "ops_run_git_command sp self [''checkout'', ''-b'', ''main''] True s2' = (r, s3')"
    using n unfolding ops_create_new_branch_def by (auto simp: Let_def split: prod.splits)
  from issued_append [OF ops_run_commands [OF this]]
  have 5: "issued s2' s3' = [[''git'', ''--no-pager'', ''checkout'', ''-b'', ''main'']]" by simp
  from 1 2 3 4 5 show ?thesis by blast
qed

theorem no_candidate_resolution_witness:
  "fst (utils_get_default_branch remdups (scripted branchless_repo) ((), [])) = None
   \<and> fst (ops_get_current_branch (scripted branchless_repo) here ((), [])) = None
   \<and> utils_switch_to_branch remdups (scripted branchless_repo) None ((), [])
       = (False, snd (utils_get_default_branch remdups (scripted branchless_repo) ((), [])))
   \<and> fst (ops_push_resolve remdups (scripted branchless_repo) here ((), [])) = Some ''main''"
proof -
  let ?sp = "scripted branchless_repo"
  let ?d = "utils_get_default_branch remdups ?sp ((), [])"
  let ?c = "ops_get_current_branch ?sp here ((), [])"
  let ?b = "ops_find_best_branch remdups ?sp here (snd ?c)"
  let ?n = "ops_create_new_branch ?sp here ''main'' None (snd ?b)"
  have d: "?d = (None, snd ?d)" by code_simp
  have c: "?c = (None, snd ?c)" by code_simp
  have b: "?b = (None, snd ?b)" by code_simp
  have n: "?n = (True, snd ?n)" by code_simp
  note t = no_candidate_resolution [OF d c b n]
  from t have u: "utils_switch_to_branch remdups ?sp None ((), []) = (False, snd ?d)" by blast
  from t have "ops_push_resolve remdups ?sp here ((), []) = (if True then Some ''main'' else None, snd ?n)"
    by blast
  then have o: "fst (ops_push_resolve remdups ?sp here ((), [])) = Some ''main''"
    by (simp only: fst_conv if_True)
  have d1: "fst ?d = None" by code_simp
  have c1: "fst ?c = None" by code_simp
  from d1 c1 u o show ?thesis by blast
qed

text \<open>
  Counterexample to C4 as stated: no local or remote branch exists and neither variant
  finds a default branch; the push operation of the class does not fail but creates
  \<^verbatim>\<open>main\<close> and returns \<^verbatim>\<open>True\<close>.
\<close>

theorem class_creates_main_without_candidate:
  "fst (utils_get_default_branch remdups (scripted branchless_repo) ((), [])) = None
   \<and> fst (ops_find_best_branch remdups (scripted branchless_repo) here
            (snd (ops_get_current_branch (scripted branchless_repo) here ((), [])))) = None
   \<and> fst (ops_execute_git_push remdups (scripted branchless_repo) here ''auto'' None None ((), []))
   \<and> [''git'', ''--no-pager'', ''checkout'', ''-b'', ''main'']
       \<in> set (commands_of (snd (snd (ops_execute_git_push remdups (scripted branchless_repo) here
                                       ''auto'' None None ((), [])))))"
  by code_simp

lemma utils_try_alternative_eq:
  "utils_try_alternative sp available a s
     = (if a \<in> set available
        then (fst (fst (utils_run_git_command sp [''git'', ''checkout'', a] None s)),
              snd (utils_run_git_command sp [''git'', ''checkout'', a] None s))
        else utils_create_branch_from_remote sp a s)"
  unfolding utils_try_alternative_def by (simp split: prod.splits)

lemma utils_create_branch_from_remote_eq:
  "utils_create_branch_from_remote sp a s
     = (if fst (fst (utils_run_git_command sp
                       [''git'', ''show-ref'', ''--verify'', ''--quiet'', ''refs/remotes/origin/'' @ a]
                       None s))
        then (fst (fst (utils_run_git_command sp
                          [''git'', ''checkout'', ''-b'', a, ''origin/'' @ a] None
                          (snd (utils_run_git_command sp
                                  [''git'', ''show-ref'', ''--verify'', ''--quiet'',
                                   ''refs/remotes/origin/'' @ a] None s)))),
              snd (utils_run_git_command sp
                     [''git'', ''checkout'', ''-b'', a, ''origin/'' @ a] None
                     (snd (utils_run_git_command sp
                             [''git'', ''show-ref'', ''--verify'', ''--quiet'',
                              ''refs/remotes/origin/'' @ a] None s))))
        else (fst (fst (utils_run_git_command sp [''git'', ''checkout'', ''-b'', a] None
                          (snd (utils_run_git_command sp
                                  [''git'', ''show-ref'', ''--verify'', ''--quiet'',
                                   ''refs/remotes/origin/'' @ a] None s)))),
              snd (utils_run_git_command sp [''git'', ''checkout'', ''-b'', a] None
                     (snd (utils_run_git_command sp
                             [''git'', ''show-ref'', ''--verify'', ''--quiet'',
                              ''refs/remotes/origin/'' @ a] None s)))))"
  unfolding utils_create_branch_from_remote_def by (simp split: prod.splits)

text \<open>
  Claim C2, as amended. After a failed direct checkout of the target,
  \<^verbatim>\<open>switch_to_branch\<close> looks for alternatives only when the target is absent from the
  available branches and could not be created: it then tries \<^verbatim>\<open>main\<close> and
  \<^verbatim>\<open>master\<close> in this order (\<^verbatim>\<open>master\<close> then \<^verbatim>\<open>main\<close> when the target is
  one of the two) and returns \<^verbatim>\<open>True\<close> at the first that succeeds. An alternative
  that is among the available branches is checked out, and the attempt succeeds exactly
  when that checkout does; one that is not is created, from \<^verbatim>\<open>origin/<name>\<close> when
  \<^verbatim>\<open>show-ref\<close> finds that remote branch and from \<open>HEAD\<close> otherwise, and the attempt
  succeeds exactly when the \<^verbatim>\<open>checkout -b\<close> does. When the target is among the
  available branches and its checkout failed, the function returns \<^verbatim>\<open>False\<close> without
  trying any alternative.
\<close>

theorem fallback_only_for_absent_target:
  fixes sp :: "'w subprocess"
  assumes co: "utils_run_git_command sp [''git'', ''checkout'', t] None s = ((False, out), s1)"
      and av: "utils_get_available_branches list_of_set sp s1 = (available, s2)"
      and cr: "utils_create_branch_from_remote sp t s2 = (created, s3)"
  shows "(t \<in> set available
            \<longrightarrow> utils_switch_to_branch list_of_set sp (Some t) s = (False, s2))
       \<and> (t \<notin> set available \<and> created
            \<longrightarrow> utils_switch_to_branch list_of_set sp (Some t) s = (True, s3))
       \<and> (t \<notin> set available \<and> \<not> created
            \<longrightarrow> utils_switch_to_branch list_of_set sp (Some t) s
                  = utils_alternatives_loop sp available (alternatives_for t) s3)
       \<and> alternatives_for t
           = (if t = ''main'' \<or> t = ''master'' then [''master'', ''main''] else [''main'', ''master''])
       \<and> utils_alternatives_loop sp available [a, b] s3
           = (case utils_try_alternative sp available a s3 of
                (True, s4) \<Rightarrow> (True, s4)
              | (False, s4) \<Rightarrow> utils_try_alternative sp available b s4)
       \<and> (a \<in> set available
            \<longrightarrow> utils_try_alternative sp available a s'
                  = (fst (fst (utils_run_git_command sp [''git'', ''checkout'', a] None s')),
                     snd (utils_run_git_command sp [''git'', ''checkout'', a] None s')))
       \<and> (a \<notin> set available
            \<longrightarrow> utils_try_alternative sp available a s' = utils_create_branch_from_remote sp a s')
       \<and> (utils_run_git_command sp
             [''git'', ''show-ref'', ''--verify'', ''--quiet'', ''refs/remotes/origin/'' @ a] None s'
             = ((found, out'), s'')
            \<longrightarrow> utils_create_branch_from_remote sp a s'
                  = (if found
                     then (fst (fst (utils_run_git_command sp
                                       [''git'', ''checkout'', ''-b'', a, ''origin/'' @ a] None s'')),
                           snd (utils_run_git_command sp
                                  [''git'', ''checkout'', ''-b'', a, ''origin/'' @ a] None s''))
                     else (fst (fst (utils_run_git_command sp
                                       [''git'', ''checkout'', ''-b'', a] None s'')),
                           snd (utils_run_git_command sp [''git'', ''checkout'', ''-b'', a] None s''))))"
proof -
  have 1: "t \<in> set available
            \<longrightarrow> utils_switch_to_branch list_of_set sp (Some t) s = (False, s2)"
    using co av unfolding utils_switch_to_branch_def utils_switch_to_known_def by simp
  have 2: "t \<notin> set available \<and> created
            \<longrightarrow> utils_switch_to_branch list_of_set sp (Some t) s = (True, s3)"
    using co av cr unfolding utils_switch_to_branch_def utils_switch_to_known_def by simp
  have 3: "t \<notin> set available \<and> \<not> created
            \<longrightarrow> utils_switch_to_branch list_of_set sp (Some t) s
                  = utils_alternatives_loop sp available (alternatives_for t) s3"
    using co av cr unfolding utils_switch_to_branch_def utils_switch_to_known_def by simp
  have 4: "alternatives_for t
           = (if t = ''main'' \<or> t = ''master'' then [''master'', ''main''] else [''main'', ''master''])"
    by (simp add: alternatives_for_def)
  have 5: "utils_alternatives_loop sp available [a, b] s3
           = (case utils_try_alternative sp available a s3 of
                (True, s4) \<Rightarrow> (True, s4)
              | (False, s4) \<Rightarrow> utils_try_alternative sp available b s4)"
    by (simp split: prod.splits bool.splits)
  have 6: "a \<in> set available
            \<longrightarrow> utils_try_alternative sp available a s'
                  = (fst (fst (utils_run_git_command sp [''git'', ''checkout'', a] None s')),
                     snd (utils_run_git_command sp [''git'', ''checkout'', a] None s'))"
    by (simp add: utils_try_alternative_eq)
  have 7: "a \<notin> set available
            \<longrightarrow> utils_try_alternative sp available a s' = utils_create_branch_from_remote sp a s'"
    by (simp add: utils_try_alternative_eq)
  have 8: "utils_run_git_command sp
             [''git'', ''show-ref'', ''--verify'', ''--quiet'', ''refs/remotes/origin/'' @ a] None s'
             = ((found, out'), s'')
            \<longrightarrow> utils_create_branch_from_remote sp a s'
                  = (if found
                     then (fst (fst (utils_run_git_command sp
                                       [''git'', ''checkout'', ''-b'', a, ''origin/'' @ a] None s'')),
                           snd (utils_run_git_command sp
                                  [''git'', ''checkout'', ''-b'', a, ''origin/'' @ a] None s''))
                     else (fst (fst (utils_run_git_command sp
                                       [''git'', ''checkout'', ''-b'', a] None s'')),
                           snd (utils_run_git_command sp [''git'', ''checkout'', ''-b'', a] None s'')))"
    by (simp add: utils_create_branch_from_remote_eq)
  from 1 2 3 4 5 6 7 8 show ?thesis by blast
qed

theorem fallback_only_for_absent_target_witness:
  "fst (utils_switch_to_branch remdups (scripted bad_name_repo) (Some ''feature..x'') ((), []))
   \<and> commands_of (snd (snd (utils_switch_to_branch remdups (scripted bad_name_repo)
                              (Some ''feature..x'') ((), []))))
       = [[''git'', ''checkout'', ''feature..x''],
          [''git'', ''branch''],
          [''git'', ''branch'', ''-r''],
          [''git'', ''show-ref'', ''--verify'', ''--quiet'', ''refs/remotes/origin/feature..x''],
          [''git'', ''checkout'', ''-b'', ''feature..x''],
          [''git'', ''checkout'', ''main'']]
   \<and> fst (utils_switch_to_branch remdups (scripted develop_only_repo) (Some ''feature..x'') ((), []))
   \<and> commands_of (snd (snd (utils_switch_to_branch remdups (scripted develop_only_repo)
                              (Some ''feature..x'') ((), []))))
       = [[''git'', ''checkout'', ''feature..x''],
          [''git'', ''branch''],
          [''git'', ''branch'', ''-r''],
          [''git'', ''show-ref'', ''--verify'', ''--quiet'', ''refs/remotes/origin/feature..x''],
          [''git'', ''checkout'', ''-b'', ''feature..x''],
          [''git'', ''show-ref'', ''--verify'', ''--quiet'', ''refs/remotes/origin/main''],
          [''git'', ''checkout'', ''-b'', ''main'']]"
proof -
  let ?cmds = "\<lambda>r. commands_of (snd (snd r))"
  let ?t = "''feature..x''"
  let ?sp = "scripted bad_name_repo"
  let ?co = "utils_run_git_command ?sp [''git'', ''checkout'', ?t] None ((), [])"
  let ?av = "utils_get_available_branches remdups ?sp (snd ?co)"
  let ?cr = "utils_create_branch_from_remote ?sp ?t (snd ?av)"
  let ?sw = "utils_switch_to_branch remdups ?sp (Some ?t) ((), [])"
  let ?ck = "utils_run_git_command ?sp [''git'', ''checkout'', ''main''] None (snd ?cr)"
  have co: "?co = ((False, snd (fst ?co)), snd ?co)" by code_simp
  have av: "?av = ([''main''], snd ?av)" by code_simp
  have cr: "?cr = (False, snd ?cr)" by code_simp
  note t = fallback_only_for_absent_target
             [OF co av cr, where a = "''main''" and b = "''master''" and s' = "snd ?cr"]
  have absent: "?t \<notin> set [''main'']" by simp
  have listed: "''main'' \<in> set [''main'']" by simp
  from t absent have sw: "?sw = utils_alternatives_loop ?sp [''main''] (alternatives_for ?t) (snd ?cr)"
    by blast
  from t have alt: "alternatives_for ?t = [''main'', ''master'']" by simp
  from t have loop: "utils_alternatives_loop ?sp [''main''] [''main'', ''master''] (snd ?cr)
           = (case utils_try_alternative ?sp [''main''] ''main'' (snd ?cr) of
                (True, s4) \<Rightarrow> (True, s4)
              | (False, s4) \<Rightarrow> utils_try_alternative ?sp [''main''] ''master'' s4)"
    by blast
  from t listed have attempt: "utils_try_alternative ?sp [''main''] ''main'' (snd ?cr) = (fst (fst ?ck), snd ?ck)"
    by blast
  have ck: "fst (fst ?ck)" by code_simp
  have sw': "?sw = (True, snd ?ck)"
    unfolding sw alt loop attempt using ck by simp
  have c1: "commands_of (snd (snd ?ck))
       = [[''git'', ''checkout'', ?t],
          [''git'', ''branch''],
          [''git'', ''branch'', ''-r''],
          [''git'', ''show-ref'', ''--verify'', ''--quiet'', ''refs/remotes/origin/feature..x''],
          [''git'', ''checkout'', ''-b'', ?t],
          [''git'', ''checkout'', ''main'']]"
    by code_simp
  let ?sp2 = "scripted develop_only_repo"
  let ?co2 = "utils_run_git_command ?sp2 [''git'', ''checkout'', ?t] None ((), [])"
  let ?av2 = "utils_get_available_branches remdups ?sp2 (snd ?co2)"
  let ?cr2 = "utils_create_branch_from_remote ?sp2 ?t (snd ?av2)"
  let ?sw2 = "utils_switch_to_branch remdups ?sp2 (Some ?t) ((), [])"
  let ?sr = "utils_run_git_command ?sp2
               [''git'', ''show-ref'', ''--verify'', ''--quiet'', ''refs/remotes/origin/'' @ ''main'']
               None (snd ?cr2)"
  let ?nb = "utils_run_git_command ?sp2 [''git'', ''checkout'', ''-b'', ''main''] None (snd ?sr)"
  have co2: "?co2 = ((False, snd (fst ?co2)), snd ?co2)" by code_simp
  have av2: "?av2 = ([''develop''], snd ?av2)" by code_simp
  have cr2: "?cr2 = (False, snd ?cr2)" by code_simp
  have sr: "?sr = ((False, snd (fst ?sr)), snd ?sr)" by code_simp
  note u = fallback_only_for_absent_target
             [OF co2 av2 cr2, where a = "''main''" and b = "''master''" and s' = "snd ?cr2"
                and found = False and out' = "snd (fst ?sr)" and s'' = "snd ?sr"]
  have absent2: "?t \<notin> set [''develop'']" by simp
  have unlisted: "''main'' \<notin> set [''develop'']" by simp
  from u absent2 have sw2: "?sw2 = utils_alternatives_loop ?sp2 [''develop''] (alternatives_for ?t) (snd ?cr2)"
    by blast
  from u have loop2: "utils_alternatives_loop ?sp2 [''develop''] [''main'', ''master''] (snd ?cr2)
           = (case utils_try_alternative ?sp2 [''develop''] ''main'' (snd ?cr2) of
                (True, s4) \<Rightarrow> (True, s4)
              | (False, s4) \<Rightarrow> utils_try_alternative ?sp2 [''develop''] ''master'' s4)"
    by blast
  from u unlisted have attempt2: "utils_try_alternative ?sp2 [''develop''] ''main'' (snd ?cr2)
           = utils_create_branch_from_remote ?sp2 ''main'' (snd ?cr2)"
    by blast
  from u sr have mk: "utils_create_branch_from_remote ?sp2 ''main'' (snd ?cr2)
           = (if False then (fst (fst (utils_run_git_command ?sp2
                                        [''git'', ''checkout'', ''-b'', ''main'', ''origin/'' @ ''main''] None (snd ?sr))),
                             snd (utils_run_git_command ?sp2
                                        [''git'', ''checkout'', ''-b'', ''main'', ''origin/'' @ ''main''] None (snd ?sr)))
              else (fst (fst ?nb), snd ?nb))"
    by blast
  have nb: "fst (fst ?nb)" by code_simp
  have sw2': "?sw2 = (True, snd ?nb)"
    unfolding sw2 alt loop2 attempt2 mk using nb by simp
  have c2: "commands_of (snd (snd ?nb))
       = [[''git'', ''checkout'', ?t],
          [''git'', ''branch''],
          [''git'', ''branch'', ''-r''],
          [''git'', ''show-ref'', ''--verify'', ''--quiet'', ''refs/remotes/origin/feature..x''],
          [''git'', ''checkout'', ''-b'', ?t],
          [''git'', ''show-ref'', ''--verify'', ''--quiet'', ''refs/remotes/origin/main''],
          [''git'', ''checkout'', ''-b'', ''main'']]"
    by code_simp
  show ?thesis
    unfolding sw' sw2' fst_conv snd_conv using c1 c2 by simp
qed

text \<open>
  Counterexample to C2 as stated: \<^verbatim>\<open>release\<close> is among the available branches and
  its checkout fails for local changes; \<^verbatim>\<open>main\<close> is available and its checkout would
  succeed, but \<^verbatim>\<open>switch_to_branch\<close> returns \<^verbatim>\<open>False\<close> after the two listings and
  never tries it.
\<close>

theorem no_fallback_for_available_target:
  "''release'' \<in> set (fst (utils_get_available_branches remdups (scripted dirty_repo) ((), [])))
   \<and> ''main'' \<in> set (fst (utils_get_available_branches remdups (scripted dirty_repo) ((), [])))
   \<and> fst (fst (utils_run_git_command (scripted dirty_repo) [''git'', ''checkout'', ''main''] None ((), [])))
   \<and> \<not> fst (utils_switch_to_branch remdups (scripted dirty_repo) (Some ''release'') ((), []))
   \<and> commands_of (snd (snd (utils_switch_to_branch remdups (scripted dirty_repo) (Some ''release'') ((), []))))
       = [[''git'', ''checkout'', ''release''], [''git'', ''branch''], [''git'', ''branch'', ''-r'']]"
  by code_simp

lemma utils_switch_direct:
  fixes sp :: "'w subprocess"
  assumes "sp [''git'', ''checkout'', b] None w = (Exited 0 out err, w')"
  shows "\<exists>tr'. utils_switch_to_branch list_of_set sp (Some b) (w, tr) = (True, (w', tr'))
               \<and> commands_of tr' = commands_of tr @ [[''git'', ''checkout'', b]]"
  using assms
  unfolding utils_switch_to_branch_def utils_switch_to_known_def
  by (simp add: utils_run_git_command.simps Let_def commands_of_def)

text \<open>
  Claim C9, as amended. Let the tool be such that the checkout of the existing local
  branch \<open>b\<close> exits with status 0 and leaves \<open>HEAD\<close> on that branch, changing nothing
  when \<open>HEAD\<close> is there already; \<open>current\<close> and \<open>locals\<close> read the current branch
  and the local branches off the repository. Then \<^verbatim>\<open>switch_to_branch\<close> on \<open>b\<close>
  succeeds with that one checkout and ends on the branch, and a second call succeeds
  again, runs the same single command and leaves the repository as the first call left
  it.
\<close>

theorem resolver_idempotent:
  fixes sp :: "'w subprocess" and current :: "'w \<Rightarrow> string option" and locals :: "'w \<Rightarrow> string set"
  assumes tool: "\<And>v. b \<in> locals v \<Longrightarrow>
                   \<exists>out err v'. sp [''git'', ''checkout'', b] None v = (Exited 0 out err, v')
                       \<and> current v' = Some b \<and> b \<in> locals v'
                       \<and> (current v = Some b \<longrightarrow> v' = v)"
      and ex: "b \<in> locals w"
  shows "fst (utils_switch_to_branch list_of_set sp (Some b) (w, tr))
       \<and> current (fst (snd (utils_switch_to_branch list_of_set sp (Some b) (w, tr)))) = Some b
       \<and> issued (w, tr) (snd (utils_switch_to_branch list_of_set sp (Some b) (w, tr)))
           = [[''git'', ''checkout'', b]]
       \<and> fst (utils_switch_to_branch list_of_set sp (Some b)
                (snd (utils_switch_to_branch list_of_set sp (Some b) (w, tr))))
       \<and> fst (snd (utils_switch_to_branch list_of_set sp (Some b)
                      (snd (utils_switch_to_branch list_of_set sp (Some b) (w, tr)))))
           = fst (snd (utils_switch_to_branch list_of_set sp (Some b) (w, tr)))
       \<and> issued (snd (utils_switch_to_branch list_of_set sp (Some b) (w, tr)))
                (snd (utils_switch_to_branch list_of_set sp (Some b)
                        (snd (utils_switch_to_branch list_of_set sp (Some b) (w, tr)))))
           = [[''git'', ''checkout'', b]]"
proof -
  from tool [OF ex] obtain out err w1 where
    c1: "sp [''git'', ''checkout'', b] None w = (Exited 0 out err, w1)"
    and cur1: "current w1 = Some b" and loc1: "b \<in> locals w1"
    by blast
  from utils_switch_direct [where sp = sp and list_of_set = list_of_set and tr = tr, OF c1] obtain tr1 where
    r1: "utils_switch_to_branch list_of_set sp (Some b) (w, tr) = (True, (w1, tr1))"
    and t1: "commands_of tr1 = commands_of tr @ [[''git'', ''checkout'', b]]"
    by blast
  from tool [OF loc1] cur1 obtain out' err' where
    c2: "sp [''git'', ''checkout'', b] None w1 = (Exited 0 out' err', w1)"
    by auto
  from utils_switch_direct [where sp = sp and list_of_set = list_of_set and tr = tr1, OF c2] obtain tr2 where
    r2: "utils_switch_to_branch list_of_set sp (Some b) (w1, tr1) = (True, (w1, tr2))"
    and t2: "commands_of tr2 = commands_of tr1 @ [[''git'', ''checkout'', b]]"
    by blast
  have i1: "issued (w, tr) (w1, tr1) = [[''git'', ''checkout'', b]]"
    by (rule issued_append) (simp add: t1)
  have i2: "issued (w1, tr1) (w1, tr2) = [[''git'', ''checkout'', b]]"
    by (rule issued_append) (simp add: t2)
  show ?thesis
    unfolding r1 snd_conv fst_conv r2 using cur1 i1 i2 by simp
qed

theorem resolver_idempotent_witness:
  "''develop'' \<in> set (local_heads two_branches)
   \<and> fst (utils_switch_to_branch remdups tiny_git (Some ''develop'') (two_branches, []))
   \<and> head_branch (fst (snd (utils_switch_to_branch remdups tiny_git (Some ''develop'') (two_branches, []))))
       = Some ''develop''
   \<and> fst (utils_switch_to_branch remdups tiny_git (Some ''develop'')
            (snd (utils_switch_to_branch remdups tiny_git (Some ''develop'') (two_branches, []))))
   \<and> fst (snd (utils_switch_to_branch remdups tiny_git (Some ''develop'')
                  (snd (utils_switch_to_branch remdups tiny_git (Some ''develop'') (two_branches, [])))))
       = fst (snd (utils_switch_to_branch remdups tiny_git (Some ''develop'') (two_branches, [])))"
proof -
  have tool: "\<And>v. ''develop'' \<in> set (local_heads v) \<Longrightarrow>
                \<exists>out err v'. tiny_git [''git'', ''checkout'', ''develop''] None v = (Exited 0 out err, v')
                    \<and> head_branch v' = Some ''develop'' \<and> ''develop'' \<in> set (local_heads v')
                    \<and> (head_branch v = Some ''develop'' \<longrightarrow> v' = v)"
    by (simp add: tiny_git_def)
  have ex: "''develop'' \<in> set (local_heads two_branches)"
    by (simp add: two_branches_def)
  from resolver_idempotent [of "''develop''" "\<lambda>v. set (local_heads v)" tiny_git head_branch,
         OF tool ex, of remdups "[]"] ex
  show ?thesis by blast
qed

text \<open>
  Counterexample to C9 as stated: \<^verbatim>\<open>release\<close> is an existing local branch, but local
  changes stand in the way of its checkout, and \<^verbatim>\<open>switch_to_branch\<close> returns
  \<^verbatim>\<open>False\<close>.
\<close>

theorem existing_branch_switch_can_fail:
  "utils_local_name ''  release'' = Some ''release''
   \<and> ''release'' \<in> set (fst (utils_get_available_branches remdups (scripted dirty_repo) ((), [])))
   \<and> \<not> fst (utils_switch_to_branch remdups (scripted dirty_repo) (Some ''release'') ((), []))"
  by code_simp

end
